theory Spec2Isabelle
  imports Complex_Main "HOL-Library.Sublist"
begin

section \<open>Configuration and process environment\<close>

text \<open>
  The constants that the source imports from \<^verbatim>\<open>./config\<close> and the facts it reads from
  the process (\<^verbatim>\<open>process.env.HOME\<close>, the current directory, the file system behind
  \<^verbatim>\<open>realpathSync\<close>, the rendering of a date and of a number, the text of the
  \<^verbatim>\<open>TypeError\<close> that the runtime raises at a given expression, as \<^verbatim>\<open>String(error)\<close> prints
  it) are inputs of the model, and so are the functions that the source imports from
  \<^verbatim>\<open>./formatting\<close>.  \<^verbatim>\<open>realpathSync\<close> returns the canonical
  path of an existing file and throws otherwise: \<^term>\<open>None\<close> is the throw.
  JavaScript numbers that hold counts of tokens and seconds are reals: the rate limiter
  is given once with exact arithmetic and once with the rounding of the runtime after
  every operation; \<^verbatim>\<open>Date.now()\<close> is an integer number of milliseconds.
\<close>

text \<open>
  A JavaScript \<^verbatim>\<open>number\<close>: the value \<^verbatim>\<open>NaN\<close>, the two infinities, or a finite value.
  \<^verbatim>\<open>+0\<close> and \<^verbatim>\<open>-0\<close> are one value here: neither the operator \<^verbatim>\<open>!\<close> nor the comparison of
  \<^verbatim>\<open>Array.prototype.includes\<close> (SameValueZero) tells them apart.  With that, SameValueZero
  is equality, also at \<^verbatim>\<open>NaN\<close>.  A number is falsy when it is \<^verbatim>\<open>0\<close> or \<^verbatim>\<open>NaN\<close>.
\<close>

datatype number = NaN | PosInfinity | NegInfinity | Finite real

definition falsy :: "number \<Rightarrow> bool" where
  "falsy n = (n = Finite 0 \<or> n = NaN)"

text \<open>The number that holds a Telegram id, which is an integer.\<close>

definition Num :: "int \<Rightarrow> number" where
  "Num i = Finite (real_of_int i)"

record config =
  ALLOWED_USERS :: "number list"
  ALLOWED_PATHS :: "string list"
  TEMP_PATHS :: "string list"
  BLOCKED_PATTERNS :: "string list"
  RATE_LIMIT_ENABLED :: bool
  RATE_LIMIT_REQUESTS :: real
  RATE_LIMIT_WINDOW :: real
  WORKING_DIR :: string
  TELEGRAM_MESSAGE_LIMIT :: nat
  TELEGRAM_SAFE_LIMIT :: nat
  STREAMING_THROTTLE_MS :: int
  HOME :: "string option"
  cwd :: string
  realpathSync :: "string \<Rightarrow> string option"
  convertMarkdownToHtml :: "string \<Rightarrow> string"
  escapeHtml :: "string \<Rightarrow> string"
  formatToolStatus :: "string \<Rightarrow> string option \<Rightarrow> string option \<Rightarrow> string"
  toLocaleDateString :: "int \<Rightarrow> string"
  numberToString :: "number \<Rightarrow> string"
  typeError :: "string \<Rightarrow> string"
  THINKING_KEYWORDS :: "string list"
  THINKING_DEEP_KEYWORDS :: "string list"

section \<open>Authorization (security.ts)\<close>

text \<open>
  \<^verbatim>\<open>isAuthorized(userId: number | undefined, allowedUsers: number[])\<close>.
  \<^verbatim>\<open>undefined\<close> is \<^term>\<open>None\<close>.  The first guard of the source is \<^verbatim>\<open>!userId\<close>, which
  JavaScript evaluates to true for \<^verbatim>\<open>undefined\<close> and for the falsy numbers \<^verbatim>\<open>0\<close> and \<^verbatim>\<open>NaN\<close>.
  \<^verbatim>\<open>allowedUsers.includes(userId)\<close> compares with SameValueZero.
\<close>

definition isAuthorized :: "number option \<Rightarrow> number list \<Rightarrow> bool" where
  "isAuthorized userId allowedUsers =
     (case userId of
        None \<Rightarrow> False
      | Some u \<Rightarrow>
          if falsy u then False
          else if length allowedUsers = 0 then False
          else u \<in> set allowedUsers)"

section \<open>Rate limiter (security.ts)\<close>

record RateLimitBucket =
  tokens :: real
  lastUpdate :: int

type_synonym buckets = "int \<Rightarrow> RateLimitBucket option"

definition maxTokens :: "config \<Rightarrow> real" where
  "maxTokens cfg = RATE_LIMIT_REQUESTS cfg"

definition refillRate :: "config \<Rightarrow> real" where
  "refillRate cfg = RATE_LIMIT_REQUESTS cfg / RATE_LIMIT_WINDOW cfg"

text \<open>
  \<^verbatim>\<open>RateLimiter.check(userId)\<close> at the clock reading \<open>now\<close>.  The result is the pair
  \<^verbatim>\<open>[allowed, retryAfter?]\<close> and the updated bucket table.  The elapsed time is
  \<^verbatim>\<open>(now - bucket.lastUpdate) / 1000\<close> as the source computes it, with no clamp.  The
  arithmetic is exact here.
\<close>

definition refill :: "config \<Rightarrow> int \<Rightarrow> RateLimitBucket \<Rightarrow> RateLimitBucket" where
  "refill cfg now bucket =
     (let elapsed = real_of_int (now - lastUpdate bucket) / 1000
      in \<lparr>tokens = min (maxTokens cfg) (tokens bucket + elapsed * refillRate cfg),
          lastUpdate = now\<rparr>)"

text \<open>The lazily created bucket: \<^verbatim>\<open>if (!bucket) { bucket = {tokens: maxTokens, lastUpdate: now} }\<close>.\<close>

definition bucket_of :: "config \<Rightarrow> int \<Rightarrow> RateLimitBucket option \<Rightarrow> RateLimitBucket" where
  "bucket_of cfg now ob =
     (case ob of None \<Rightarrow> \<lparr>tokens = maxTokens cfg, lastUpdate = now\<rparr> | Some b \<Rightarrow> b)"

definition check :: "config \<Rightarrow> int \<Rightarrow> int \<Rightarrow> buckets \<Rightarrow> (bool \<times> real option) \<times> buckets" where
  "check cfg now userId bs =
     (if \<not> RATE_LIMIT_ENABLED cfg then ((True, None), bs)
      else
        let bucket = refill cfg now (bucket_of cfg now (bs userId))
        in if tokens bucket \<ge> 1
           then ((True, None), bs(userId \<mapsto> bucket\<lparr>tokens := tokens bucket - 1\<rparr>))
           else ((False, Some ((1 - tokens bucket) / refillRate cfg)), bs(userId \<mapsto> bucket)))"

text \<open>
  The arithmetic of the runtime.  A JavaScript number is a binary64 floating point
  number, and each arithmetic operation returns its exact result rounded to the nearest
  such number, a tie going to the even significand.  \<open>exponent x\<close> is the integer part of the
  binary logarithm of \<open>\<bar>x\<bar>\<close>, \<open>quantum x\<close> the distance between the binary64 numbers around
  \<open>x\<close> (the significand has 53 bits, and below the smallest normal number the distance
  stays what it is there).  Results that overflow are outside the model.
\<close>

fun ilog2 :: "nat \<Rightarrow> nat" where
  "ilog2 n = (if n < 2 then 0 else Suc (ilog2 (n div 2)))"

declare ilog2.simps [simp del]

definition exponent :: "real \<Rightarrow> int" where
  "exponent x =
     (if 1 \<le> \<bar>x\<bar> then int (ilog2 (nat \<lfloor>\<bar>x\<bar>\<rfloor>))
      else - int (Suc (ilog2 (nat (\<lceil>1 / \<bar>x\<bar>\<rceil> - 1)))))"

definition pow2 :: "int \<Rightarrow> real" where
  "pow2 e = (if 0 \<le> e then 2 ^ nat e else 1 / 2 ^ nat (- e))"

definition quantum :: "real \<Rightarrow> real" where
  "quantum x = pow2 (max (exponent x) (- 1022) - 52)"

definition roundHalfEven :: "real \<Rightarrow> int" where
  "roundHalfEven x =
     (let f = \<lfloor>x\<rfloor>
      in if x - of_int f < 1 / 2 then f
         else if 1 / 2 < x - of_int f then f + 1
         else if even f then f else f + 1)"

definition binary64 :: "real \<Rightarrow> real" where
  "binary64 x = (if x = 0 then 0 else of_int (roundHalfEven (x / quantum x)) * quantum x)"

text \<open>
  \<^verbatim>\<open>RateLimiter.check\<close> as the runtime computes it: the same statements, every operation
  rounded.  The difference of two clock readings, the comparison and the minimum are
  exact.
\<close>

definition refillRate64 :: "config \<Rightarrow> real" where
  "refillRate64 cfg = binary64 (RATE_LIMIT_REQUESTS cfg / RATE_LIMIT_WINDOW cfg)"

definition refill64 :: "config \<Rightarrow> int \<Rightarrow> RateLimitBucket \<Rightarrow> RateLimitBucket" where
  "refill64 cfg now bucket =
     (let elapsed = binary64 (real_of_int (now - lastUpdate bucket) / 1000)
      in \<lparr>tokens = min (maxTokens cfg) (binary64 (tokens bucket + binary64 (elapsed * refillRate64 cfg))),
          lastUpdate = now\<rparr>)"

definition check64 :: "config \<Rightarrow> int \<Rightarrow> int \<Rightarrow> buckets \<Rightarrow> (bool \<times> real option) \<times> buckets" where
  "check64 cfg now userId bs =
     (if \<not> RATE_LIMIT_ENABLED cfg then ((True, None), bs)
      else
        let bucket = refill64 cfg now (bucket_of cfg now (bs userId))
        in if tokens bucket \<ge> 1
           then ((True, None), bs(userId \<mapsto> bucket\<lparr>tokens := binary64 (tokens bucket - 1)\<rparr>))
           else ((False, Some (binary64 (binary64 (1 - tokens bucket) / refillRate64 cfg))),
                 bs(userId \<mapsto> bucket)))"



definition bucket_ok :: "config \<Rightarrow> RateLimitBucket \<Rightarrow> bool" where
  "bucket_ok cfg b = (0 \<le> tokens b \<and> tokens b \<le> maxTokens cfg)"


section \<open>Strings\<close>

text \<open>
  A JavaScript string is modelled as a \<^typ>\<open>string\<close>, one \<^typ>\<open>char\<close> per code unit; the
  model is exact on ASCII text.  \<^verbatim>\<open>s.startsWith(p)\<close> is \<^term>\<open>prefix p s\<close>,
  \<^verbatim>\<open>s.includes(p)\<close> is \<open>includes_str s p\<close>, \<^verbatim>\<open>s.toLowerCase()\<close> maps \<open>A\<close> to \<open>Z\<close> onto
  \<open>a\<close> to \<open>z\<close>.  The regular expression class \<^verbatim>\<open>\s\<close> is the ASCII white space (tab, line
  feed, vertical tab, form feed, carriage return, space) and \<^verbatim>\<open>.\<close> is every character
  but the line terminators (line feed, carriage return).
\<close>

fun includes_str :: "string \<Rightarrow> string \<Rightarrow> bool" where
  "includes_str [] p = (p = [])"
| "includes_str (c # cs) p = (prefix p (c # cs) \<or> includes_str cs p)"

definition toLowerChar :: "char \<Rightarrow> char" where
  "toLowerChar c =
     (let n = (of_char c :: nat) in if 65 \<le> n \<and> n \<le> 90 then char_of (n + 32) else c)"

definition toLowerCase :: "string \<Rightarrow> string" where
  "toLowerCase s = map toLowerChar s"

definition isSpace :: "char \<Rightarrow> bool" where
  "isSpace c = (let n = (of_char c :: nat) in n = 32 \<or> (9 \<le> n \<and> n \<le> 13))"

definition isLineTerminator :: "char \<Rightarrow> bool" where
  "isLineTerminator c = (let n = (of_char c :: nat) in n = 10 \<or> n = 13)"

text \<open>\<^verbatim>\<open>parts.join(sep)\<close>.\<close>

fun joinWith :: "string \<Rightarrow> string list \<Rightarrow> string" where
  "joinWith sep [] = []"
| "joinWith sep [x] = x"
| "joinWith sep (x # y # ys) = x @ sep @ joinWith sep (y # ys)"

text \<open>
  The segments of a path between its separators; there is always at least one.  The
  segment being read is kept reversed.
\<close>

fun splitOnAcc :: "char \<Rightarrow> string \<Rightarrow> string \<Rightarrow> string list" where
  "splitOnAcc sep cur [] = [rev cur]"
| "splitOnAcc sep cur (c # cs) =
     (if c = sep then rev cur # splitOnAcc sep [] cs else splitOnAcc sep (c # cur) cs)"

definition splitOn :: "char \<Rightarrow> string \<Rightarrow> string list" where
  "splitOn sep s = splitOnAcc sep [] s"

text \<open>
  \<^verbatim>\<open>s.split(/\s+/)\<close>: the pieces between the maximal runs of white space, with an empty
  first piece when the string starts with white space and an empty last piece when it
  ends with it.
\<close>

function splitWs :: "string \<Rightarrow> string list" where
  "splitWs s =
     (let tok = takeWhile (\<lambda>c. \<not> isSpace c) s;
          rest = dropWhile (\<lambda>c. \<not> isSpace c) s
      in if rest = [] then [tok] else tok # splitWs (dropWhile isSpace rest))"
  by pat_completeness auto
termination
proof (relation "measure length")
  show "wf (measure length)" by simp
next
  fix s :: string and tok rest
  assume r: "rest = dropWhile (\<lambda>c. \<not> isSpace c) s" and ne: "rest \<noteq> []"
  have "length (dropWhile isSpace rest) < length rest"
  proof (cases rest)
    case Nil
    with ne show ?thesis by simp
  next
    case (Cons c cs)
    have "isSpace (hd rest)"
      using hd_dropWhile[of "\<lambda>c. \<not> isSpace c" s] ne unfolding r by simp
    then have "isSpace c" using Cons by simp
    then show ?thesis using Cons
      by (simp add: le_imp_less_Suc length_dropWhile_le)
  qed
  moreover have "length rest \<le> length s" using r by (simp add: length_dropWhile_le)
  ultimately show "(dropWhile isSpace rest, s) \<in> measure length" by simp
qed

declare splitWs.simps [simp del]

section \<open>Path validation (security.ts)\<close>

text \<open>
  \<^verbatim>\<open>normalize\<close> and \<^verbatim>\<open>resolve\<close> are the POSIX functions of the runtime's \<^verbatim>\<open>path\<close>
  module, modelled by their documented behaviour.  Both walk the segments of the path
  with a stack: an empty segment and \<^verbatim>\<open>.\<close> are dropped, \<^verbatim>\<open>..\<close> removes the segment
  before it; at the root, or with nothing before it, \<^verbatim>\<open>..\<close> is dropped in an absolute
  path and kept in a relative one.  The stack is kept with its top first.
\<close>

definition normalizeStep :: "bool \<Rightarrow> string list \<Rightarrow> string \<Rightarrow> string list" where
  "normalizeStep allowAboveRoot stack seg =
     (if seg = [] \<or> seg = ''.'' then stack
      else if seg = ''..'' then
        (case stack of
           [] \<Rightarrow> if allowAboveRoot then [''..''] else []
         | seg0 # below \<Rightarrow>
             if seg0 = ''..'' then (if allowAboveRoot then ''..'' # stack else stack)
             else below)
      else seg # stack)"

definition normalizeString :: "string \<Rightarrow> bool \<Rightarrow> string" where
  "normalizeString path allowAboveRoot =
     joinWith ''/'' (rev (foldl (normalizeStep allowAboveRoot) [] (splitOn CHR ''/'' path)))"

definition isAbsolute :: "string \<Rightarrow> bool" where
  "isAbsolute path = prefix ''/'' path"

definition normalize :: "string \<Rightarrow> string" where
  "normalize path =
     (if path = [] then ''.''
      else
        let trailingSeparator = (last path = CHR ''/'');
            p = normalizeString path (\<not> isAbsolute path)
        in if p = [] then (if isAbsolute path then ''/'' else if trailingSeparator then ''./'' else ''.'')
           else (if isAbsolute path then ''/'' else []) @ p @ (if trailingSeparator then ''/'' else []))"

text \<open>
  \<^verbatim>\<open>resolve(path)\<close> with one argument: a relative path is taken from the current
  directory, which the operating system reports as an absolute path; the result is
  absolute, normalized and has no trailing separator.
\<close>

definition resolve :: "config \<Rightarrow> string \<Rightarrow> string" where
  "resolve cfg path =
     ''/'' @ normalizeString (if isAbsolute path then path else cwd cfg @ ''/'' @ path) False"

text \<open>
  \<^verbatim>\<open>path.replace(/^~/, process.env.HOME || "")\<close>: a leading tilde is replaced by the
  home directory, or removed when \<^verbatim>\<open>HOME\<close> is unset or empty.  (A home directory is taken
  to contain no \<^verbatim>\<open>$\<close>, which \<^verbatim>\<open>replace\<close> would read as a pattern.)
\<close>

definition expandHome :: "config \<Rightarrow> string \<Rightarrow> string" where
  "expandHome cfg path =
     (case path of
        c # rest \<Rightarrow> if c = CHR ''~'' then (case HOME cfg of None \<Rightarrow> [] | Some h \<Rightarrow> h) @ rest else path
      | [] \<Rightarrow> path)"

text \<open>The path that the two loops of \<^verbatim>\<open>isPathAllowed\<close> test.\<close>

definition resolved :: "config \<Rightarrow> string \<Rightarrow> string" where
  "resolved cfg path =
     (let normalized = normalize (expandHome cfg path)
      in case realpathSync cfg normalized of
           Some canonical \<Rightarrow> canonical
         | None \<Rightarrow> resolve cfg normalized)"

text \<open>\<^verbatim>\<open>for (const tempPath of TEMP_PATHS) if (resolved.startsWith(tempPath)) return true\<close>.\<close>

fun underTemp :: "string \<Rightarrow> string list \<Rightarrow> bool" where
  "underTemp r [] = False"
| "underTemp r (tempPath # others) = (if prefix tempPath r then True else underTemp r others)"

text \<open>The loop over \<^verbatim>\<open>ALLOWED_PATHS\<close>, each resolved first.\<close>

fun underAllowed :: "config \<Rightarrow> string \<Rightarrow> string list \<Rightarrow> bool" where
  "underAllowed cfg r [] = False"
| "underAllowed cfg r (allowed # others) =
     (let allowedResolved = resolve cfg allowed
      in if r = allowedResolved \<or> prefix (allowedResolved @ ''/'') r then True
         else underAllowed cfg r others)"

definition isPathAllowed :: "config \<Rightarrow> string \<Rightarrow> bool" where
  "isPathAllowed cfg path =
     (let r = resolved cfg path
      in if underTemp r (TEMP_PATHS cfg) then True
         else if underAllowed cfg r (ALLOWED_PATHS cfg) then True
         else False)"

text \<open>
  Containment as the specification words it: the path is the root itself, or it starts
  with the root followed by a separator.
\<close>

definition inside :: "string \<Rightarrow> string \<Rightarrow> bool" where
  "inside rt p = (p = rt \<or> prefix (rt @ ''/'') p)"

section \<open>Command safety (security.ts)\<close>

text \<open>
  The loop over \<^verbatim>\<open>BLOCKED_PATTERNS\<close>: the first pattern whose lower-case form occurs in
  the lower-case command.
\<close>

fun blockedPattern :: "string \<Rightarrow> string list \<Rightarrow> string option" where
  "blockedPattern lowerCommand [] = None"
| "blockedPattern lowerCommand (pattern # others) =
     (if includes_str lowerCommand (toLowerCase pattern) then Some pattern
      else blockedPattern lowerCommand others)"

text \<open>
  \<^verbatim>\<open>command.match(/rm\s+(.+)/i)\<close>, as the text captured by the group of the leftmost
  match.  \<open>wsThenRest\<close> is \<^verbatim>\<open>\s+(.+)\<close> at the head of a string: the white space is taken
  greedily and given back one character at a time while the group finds no character
  to take; the group then takes everything up to the end of the line.
\<close>

fun wsThenRest :: "string \<Rightarrow> string option" where
  "wsThenRest [] = None"
| "wsThenRest (c # cs) =
     (if isSpace c then
        (case wsThenRest cs of
           Some g \<Rightarrow> Some g
         | None \<Rightarrow>
             (let g = takeWhile (\<lambda>d. \<not> isLineTerminator d) cs
              in if g = [] then None else Some g))
      else None)"

fun rmMatchAt :: "string \<Rightarrow> string option" where
  "rmMatchAt (r # m # rest) =
     (if toLowerChar r = CHR ''r'' \<and> toLowerChar m = CHR ''m'' then wsThenRest rest else None)"
| "rmMatchAt _ = None"

fun rmMatch :: "string \<Rightarrow> string option" where
  "rmMatch [] = None"
| "rmMatch (c # cs) =
     (case rmMatchAt (c # cs) of Some g \<Rightarrow> Some g | None \<Rightarrow> rmMatch cs)"

text \<open>
  The loop over the arguments: the first argument that is neither skipped nor allowed.
  The guard of the source is \<^verbatim>\<open>arg.startsWith("-") || arg.length <= 1\<close>.
\<close>

fun rmArgs :: "config \<Rightarrow> string list \<Rightarrow> string option" where
  "rmArgs cfg [] = None"
| "rmArgs cfg (arg # args) =
     (if prefix ''-'' arg \<or> length arg \<le> 1 then rmArgs cfg args
      else if \<not> isPathAllowed cfg arg then Some arg
      else rmArgs cfg args)"

text \<open>
  The body of the \<^verbatim>\<open>try\<close> block: \<open>Inl\<close> is an exception thrown in it, \<open>Inr (Some r)\<close> is
  \<^verbatim>\<open>return r\<close>, \<open>Inr None\<close> is leaving the block at its end.  No operation of the block
  throws on a string, so the body never yields \<open>Inl\<close>; the handler \<open>rmCatch\<close> is the
  \<^verbatim>\<open>catch\<close> clause as written.
\<close>

definition rmBody :: "config \<Rightarrow> string \<Rightarrow> string + (bool \<times> string) option" where
  "rmBody cfg command =
     (case rmMatch command of
        None \<Rightarrow> Inr None
      | Some g \<Rightarrow>
          (case rmArgs cfg (splitWs g) of
             Some arg \<Rightarrow> Inr (Some (False, ''rm target outside allowed paths: '' @ arg))
           | None \<Rightarrow> Inr None))"

definition rmCatch :: "string + (bool \<times> string) option \<Rightarrow> (bool \<times> string) option" where
  "rmCatch r =
     (case r of
        Inl err \<Rightarrow> Some (False, ''Could not parse rm command for safety check'')
      | Inr v \<Rightarrow> v)"

definition checkCommandSafety :: "config \<Rightarrow> string \<Rightarrow> bool \<times> string" where
  "checkCommandSafety cfg command =
     (let lowerCommand = toLowerCase command
      in case blockedPattern lowerCommand (BLOCKED_PATTERNS cfg) of
           Some pattern \<Rightarrow> (False, ''Blocked pattern: '' @ pattern)
         | None \<Rightarrow>
             (case (if includes_str lowerCommand ''rm '' then rmCatch (rmBody cfg command) else None) of
                Some r \<Rightarrow> r
              | None \<Rightarrow> (True, [])))"

section \<open>The session object (session.ts)\<close>

text \<open>
  The fields of \<^verbatim>\<open>ClaudeSession\<close>.  A \<^verbatim>\<open>Date\<close> is its time in milliseconds, \<^verbatim>\<open>null\<close> is
  \<^term>\<open>None\<close>; the abort controller, when there is one, is the flag that tells whether
  \<^verbatim>\<open>abort()\<close> was called on it.
\<close>

record TokenUsage =
  input_tokens :: nat
  output_tokens :: nat

datatype json =
  JNull
  | JBool bool
  | JNumber number
  | JString string
  | JArray "json list"
  | JObject "(string \<times> json) list"

text \<open>
  Whether a value is truthy (\<^term>\<open>None\<close> is \<^verbatim>\<open>undefined\<close>), the property of a value other
  than \<^verbatim>\<open>null\<close> under a name that no string or array has of itself, and how a template
  literal prints a value (\<^verbatim>\<open>Array.prototype.join\<close> prints \<^verbatim>\<open>null\<close> as the empty string).
\<close>

fun truthy_value :: "json option \<Rightarrow> bool" where
  "truthy_value None = False"
| "truthy_value (Some JNull) = False"
| "truthy_value (Some (JBool b)) = b"
| "truthy_value (Some (JNumber n)) = (\<not> falsy n)"
| "truthy_value (Some (JString x)) = (x \<noteq> [])"
| "truthy_value (Some (JArray xs)) = True"
| "truthy_value (Some (JObject kvs)) = True"


fun toString :: "config \<Rightarrow> json \<Rightarrow> string" where
  "toString cfg JNull = ''null''"
| "toString cfg (JBool b) = (if b then ''true'' else ''false'')"
| "toString cfg (JNumber n) = numberToString cfg n"
| "toString cfg (JString x) = x"
| "toString cfg (JArray xs) = joinWith '','' (map (\<lambda>x. if x = JNull then [] else toString cfg x) xs)"
| "toString cfg (JObject kvs) = ''[object Object]''"

definition template :: "config \<Rightarrow> json option \<Rightarrow> string" where
  "template cfg v = (case v of None \<Rightarrow> ''undefined'' | Some x \<Rightarrow> toString cfg x)"

text \<open>
  \<^verbatim>\<open>`${v.slice(0, 8)}`\<close> for a truthy value \<open>v\<close>: strings and arrays have the method
  \<^verbatim>\<open>slice\<close>; on every other value the call throws a \<^verbatim>\<open>TypeError\<close>, which is \<^term>\<open>None\<close>.
\<close>

fun slice8 :: "config \<Rightarrow> json option \<Rightarrow> string option" where
  "slice8 cfg (Some (JString x)) = Some (take 8 x)"
| "slice8 cfg (Some (JArray xs)) = Some (toString cfg (JArray (take 8 xs)))"
| "slice8 cfg v = None"

text \<open>
  The field \<^verbatim>\<open>sessionId\<close> is declared \<^verbatim>\<open>string | null\<close>; \<^verbatim>\<open>resumeLast\<close> assigns to it
  what it finds in the persisted record, whatever its type, so the field holds a
  value.
\<close>

record ClaudeSession =
  sessionId :: "json option"
  lastActivity :: "int option"
  queryStarted :: "int option"
  currentTool :: "string option"
  lastTool :: "string option"
  lastError :: "string option"
  lastErrorTime :: "int option"
  lastUsage :: "TokenUsage option"
  lastMessage :: "string option"
  abortController :: "bool option"
  isQueryRunning :: bool
  stopRequested :: bool
  isProcessing :: bool
  wasInterruptedByNewMessage :: bool

text \<open>The session at process start.\<close>

definition newSession :: ClaudeSession where
  "newSession =
     \<lparr>sessionId = None, lastActivity = None, queryStarted = None, currentTool = None,
      lastTool = None, lastError = None, lastErrorTime = None, lastUsage = None,
      lastMessage = None, abortController = None, isQueryRunning = False,
      stopRequested = False, isProcessing = False, wasInterruptedByNewMessage = False\<rparr>"

text \<open>
  The persisted session record, as \<^verbatim>\<open>resumeLast\<close> finds it: no file or an empty one
  (\<^verbatim>\<open>file.size\<close> is 0), a file that \<^verbatim>\<open>readFileSync\<close> or \<^verbatim>\<open>JSON.parse\<close> rejects with an
  error, or the value that \<^verbatim>\<open>JSON.parse\<close> returns.  An object lists each of its keys
  once.
\<close>

datatype session_file = NoFile | Unparsable string | Parsed json

text \<open>Whether an optional string is truthy, and how a template literal prints it.\<close>

definition truthy :: "string option \<Rightarrow> bool" where
  "truthy v = (case v of None \<Rightarrow> False | Some x \<Rightarrow> x \<noteq> [])"

definition show_opt :: "string option \<Rightarrow> string" where
  "show_opt v = (case v of None \<Rightarrow> ''undefined'' | Some x \<Rightarrow> x)"


section \<open>The chat transport\<close>

text \<open>
  The transport is the collaborator behind \<^verbatim>\<open>ctx.reply\<close>, \<^verbatim>\<open>ctx.api.editMessageText\<close> and
  \<^verbatim>\<open>ctx.api.deleteMessage\<close>.  Its state is the list of display units that the chat shows,
  oldest first, each with its message id, its parse mode and its text.  Every call may
  fail (the source wraps them in \<^verbatim>\<open>try\<close>): \<open>api_ok n\<close> tells whether the \<open>n\<close>-th call of
  the run is accepted, and a call on a message that the chat does not show fails.  A
  message handle is its message id.
\<close>

datatype parse_mode = Html | Plain

record telegram =
  shown :: "(nat \<times> parse_mode \<times> string) list"
  next_id :: nat
  api_calls :: nat
  api_ok :: "nat \<Rightarrow> bool"

definition reply :: "parse_mode \<Rightarrow> string \<Rightarrow> telegram \<Rightarrow> nat option \<times> telegram" where
  "reply mode txt t =
     (if api_ok t (api_calls t)
      then (Some (next_id t),
            t\<lparr>shown := shown t @ [(next_id t, mode, txt)],
              next_id := Suc (next_id t), api_calls := Suc (api_calls t)\<rparr>)
      else (None, t\<lparr>api_calls := Suc (api_calls t)\<rparr>))"

definition editMessageText :: "nat \<Rightarrow> parse_mode \<Rightarrow> string \<Rightarrow> telegram \<Rightarrow> bool \<times> telegram" where
  "editMessageText mid mode txt t =
     (if api_ok t (api_calls t) \<and> mid \<in> fst ` set (shown t)
      then (True,
            t\<lparr>shown := map (\<lambda>u. if fst u = mid then (mid, mode, txt) else u) (shown t),
              api_calls := Suc (api_calls t)\<rparr>)
      else (False, t\<lparr>api_calls := Suc (api_calls t)\<rparr>))"

definition deleteMessage :: "nat \<Rightarrow> telegram \<Rightarrow> bool \<times> telegram" where
  "deleteMessage mid t =
     (if api_ok t (api_calls t) \<and> mid \<in> fst ` set (shown t)
      then (True,
            t\<lparr>shown := filter (\<lambda>u. fst u \<noteq> mid) (shown t), api_calls := Suc (api_calls t)\<rparr>)
      else (False, t\<lparr>api_calls := Suc (api_calls t)\<rparr>))"

text \<open>A chat with nothing in it and a transport that accepts every call.\<close>

definition emptyChat :: telegram where
  "emptyChat = \<lparr>shown = [], next_id = 0, api_calls = 0, api_ok = (\<lambda>n. True)\<rparr>"

text \<open>A number in a template literal.\<close>

function show_nat :: "nat \<Rightarrow> string" where
  "show_nat n =
     (if n < 10 then [char_of (48 + n)] else show_nat (n div 10) @ [char_of (48 + n mod 10)])"
  by pat_completeness auto
termination
  by (relation "measure id") auto

declare show_nat.simps [simp del]

section \<open>The streaming callback (handlers/streaming.ts)\<close>

text \<open>
  \<^verbatim>\<open>StreamingState\<close>: the display unit of each text segment, the ephemeral units of
  thinking and tool status, and per segment the time of the last edit and the last
  content sent.
\<close>

record StreamingState =
  textMessages :: "nat \<Rightarrow> nat option"
  toolMessages :: "nat list"
  lastEditTimes :: "nat \<Rightarrow> int option"
  lastContent :: "nat \<Rightarrow> string option"

definition freshState :: StreamingState where
  "freshState =
     \<lparr>textMessages = (\<lambda>k. None), toolMessages = [], lastEditTimes = (\<lambda>k. None),
      lastContent = (\<lambda>k. None)\<rparr>"

text \<open>
  The events of the callback as its callers send them: the status type with the
  content and, for \<^verbatim>\<open>text\<close> and \<^verbatim>\<open>segment_end\<close>, the segment id.
\<close>

datatype status = Thinking string | Tool string | Text string nat | SegmentEnd string nat | Done

text \<open>The truncation of a long content for the live display.\<close>

definition truncated :: "nat \<Rightarrow> string \<Rightarrow> string" where
  "truncated cap content = (if length content > cap then take cap content @ ''...'' else content)"

text \<open>
  The loop that sends the pieces of a long final content:
  \<^verbatim>\<open>for (let i = 0; i < formatted.length; i += TELEGRAM_SAFE_LIMIT)\<close>.  Each piece is sent as
  HTML and, when that fails, as plain text; when that fails too the exception leaves
  the loop (\<open>False\<close>).  With a limit of 0 the index never advances, and the loop ends
  only by such an exception: the function is partial, \<^term>\<open>None\<close> is not returning.
\<close>

partial_function (option) sendChunks :: "nat \<Rightarrow> string \<Rightarrow> nat \<Rightarrow> telegram \<Rightarrow> (bool \<times> telegram) option" where
  "sendChunks cap formatted i t =
     (if i < length formatted then
        (if fst (reply Html (take cap (drop i formatted)) t) \<noteq> None
         then sendChunks cap formatted (i + cap) (snd (reply Html (take cap (drop i formatted)) t))
         else if fst (reply Plain (take cap (drop i formatted))
                        (snd (reply Html (take cap (drop i formatted)) t))) \<noteq> None
         then sendChunks cap formatted (i + cap)
                (snd (reply Plain (take cap (drop i formatted))
                        (snd (reply Html (take cap (drop i formatted)) t))))
         else Some (False, snd (reply Plain (take cap (drop i formatted))
                                  (snd (reply Html (take cap (drop i formatted)) t)))))
      else Some (True, t))"

declare sendChunks.simps [code]

text \<open>The loop of \<^verbatim>\<open>done\<close>: every ephemeral unit is deleted, failures are ignored.\<close>

fun deleteAll :: "nat list \<Rightarrow> telegram \<Rightarrow> telegram" where
  "deleteAll [] t = t"
| "deleteAll (m # ms) t = deleteAll ms (snd (deleteMessage m t))"

text \<open>The emoji that starts a thinking display, as its UTF-8 bytes.\<close>

definition brain :: string where
  "brain = [CHR 0xF0, CHR 0x9F, CHR 0xA7, CHR 0xA0]"

text \<open>
  The callback that \<^verbatim>\<open>createStatusCallback(ctx, state)\<close> returns, called at the clock
  reading \<open>now\<close>.  Its body is one \<^verbatim>\<open>try\<close> block whose \<^verbatim>\<open>catch\<close> logs: an exception ends the
  call and keeps what was done before it.
\<close>

definition statusCallback ::
  "config \<Rightarrow> int \<Rightarrow> status \<Rightarrow> StreamingState \<times> telegram \<Rightarrow> (StreamingState \<times> telegram) option" where
  "statusCallback cfg now ev w =
     (let state = fst w; t = snd w in
      case ev of
        Thinking content \<Rightarrow>
          (let r = reply Html (brain @ '' <i>'' @ escapeHtml cfg (truncated 500 content) @ ''</i>'') t
           in case fst r of
                None \<Rightarrow> Some (state, snd r)
              | Some m \<Rightarrow> Some (state\<lparr>toolMessages := toolMessages state @ [m]\<rparr>, snd r))
      | Tool content \<Rightarrow>
          (let r = reply Html content t
           in case fst r of
                None \<Rightarrow> Some (state, snd r)
              | Some m \<Rightarrow> Some (state\<lparr>toolMessages := toolMessages state @ [m]\<rparr>, snd r))
      | Text content segmentId \<Rightarrow>
          (let lastEdit = (case lastEditTimes state segmentId of None \<Rightarrow> 0 | Some e \<Rightarrow> e);
               formatted = convertMarkdownToHtml cfg (truncated (TELEGRAM_SAFE_LIMIT cfg) content)
           in case textMessages state segmentId of
                None \<Rightarrow>
                  (let r = reply Html formatted t
                   in case fst r of
                        Some m \<Rightarrow>
                          Some (state\<lparr>textMessages := (textMessages state)(segmentId \<mapsto> m),
                                      lastContent := (lastContent state)(segmentId \<mapsto> formatted),
                                      lastEditTimes := (lastEditTimes state)(segmentId \<mapsto> now)\<rparr>,
                                snd r)
                      | None \<Rightarrow>
                          (let r2 = reply Plain formatted (snd r)
                           in case fst r2 of
                                Some m \<Rightarrow>
                                  Some (state\<lparr>textMessages := (textMessages state)(segmentId \<mapsto> m),
                                              lastContent := (lastContent state)(segmentId \<mapsto> formatted),
                                              lastEditTimes := (lastEditTimes state)(segmentId \<mapsto> now)\<rparr>,
                                        snd r2)
                              | None \<Rightarrow> Some (state, snd r2)))
              | Some msg \<Rightarrow>
                  if now - lastEdit > STREAMING_THROTTLE_MS cfg then
                    (if lastContent state segmentId = Some formatted then Some (state, t)
                     else
                       (let r = editMessageText msg Html formatted t
                        in if fst r
                           then Some (state\<lparr>lastContent := (lastContent state)(segmentId \<mapsto> formatted),
                                            lastEditTimes := (lastEditTimes state)(segmentId \<mapsto> now)\<rparr>,
                                      snd r)
                           else
                             (let r2 = editMessageText msg Plain formatted (snd r)
                              in if fst r2
                                 then Some (state\<lparr>lastContent := (lastContent state)(segmentId \<mapsto> formatted),
                                                  lastEditTimes := (lastEditTimes state)(segmentId \<mapsto> now)\<rparr>,
                                            snd r2)
                                 else Some (state\<lparr>lastEditTimes := (lastEditTimes state)(segmentId \<mapsto> now)\<rparr>,
                                            snd r2))))
                  else Some (state, t))
      | SegmentEnd content segmentId \<Rightarrow>
          (case textMessages state segmentId of
             None \<Rightarrow> Some (state, t)
           | Some msg \<Rightarrow>
               if content = [] then Some (state, t)
               else
                 (let formatted = convertMarkdownToHtml cfg content
                  in if lastContent state segmentId = Some formatted then Some (state, t)
                     else if length formatted \<le> TELEGRAM_MESSAGE_LIMIT cfg
                     then Some (state, snd (editMessageText msg Html formatted t))
                     else
                       (case sendChunks (TELEGRAM_SAFE_LIMIT cfg) formatted 0 (snd (deleteMessage msg t)) of
                          None \<Rightarrow> None
                        | Some r \<Rightarrow> Some (state, snd r))))
      | Done \<Rightarrow> Some (state, deleteAll (toolMessages state) t))"

text \<open>
  The transport does not fail twice in a row from the next call on: a piece that is
  refused as HTML is accepted as plain text.
\<close>

definition delivers :: "telegram \<Rightarrow> bool" where
  "delivers t = (\<forall>n \<ge> api_calls t. api_ok t n \<or> api_ok t (Suc n))"

text \<open>The text of a display unit.\<close>

definition unit_text :: "nat \<times> parse_mode \<times> string \<Rightarrow> string" where
  "unit_text u = snd (snd u)"

section \<open>The media group buffer (handlers/media-group.ts)\<close>

text \<open>
  What the buffer reads of a grammy \<^verbatim>\<open>Context\<close>: the sender, the chat and the caption of
  the message.
\<close>

record Context =
  from_id :: "int option"
  from_username :: "string option"
  chat_id :: "int option"
  message_caption :: "string option"

record MediaGroupConfig =
  emoji :: string
  itemLabel :: string
  itemLabelPlural :: string

record 'a PendingMediaGroup =
  items :: "'a list"
  ctx :: Context
  caption :: "string option"
  statusMsg :: nat
  timeout :: nat

text \<open>One call of the batch callback, with its six arguments but the context's chat.\<close>

record 'a batch =
  batch_group :: string
  batch_items :: "'a list"
  batch_caption :: "string option"
  batch_userId :: int
  batch_username :: string
  batch_chatId :: int

text \<open>
  The state that the buffer works on: the live map \<^verbatim>\<open>pendingGroups\<close>, the timers armed
  with \<^verbatim>\<open>setTimeout\<close> (each bound to the group it will process; \<^verbatim>\<open>clearTimeout\<close> removes
  one), the rate limiter's buckets, the chat, and the calls of the batch callback so
  far, oldest first.  The callback is a parameter: what it does to the chat, and
  whether it returns (\<open>True\<close>) or throws.
\<close>

record 'a media_state =
  pendingGroups :: "string \<Rightarrow> 'a PendingMediaGroup option"
  timers :: "nat \<Rightarrow> string option"
  next_timer :: nat
  rate :: buckets
  chat :: telegram
  batches :: "'a batch list"

type_synonym 'a callback = "'a batch \<Rightarrow> telegram \<Rightarrow> bool \<times> telegram"

text \<open>
  \<^verbatim>\<open>setTimeout(() => processGroup(mediaGroupId, processCallback), MEDIA_GROUP_TIMEOUT)\<close>:
  the new timer's handle and the state with the timer armed.
\<close>

definition setTimeout :: "string \<Rightarrow> 'a media_state \<Rightarrow> nat \<times> 'a media_state" where
  "setTimeout gid st =
     (next_timer st, st\<lparr>timers := (timers st)(next_timer st \<mapsto> gid), next_timer := Suc (next_timer st)\<rparr>)"

definition clearTimeout :: "nat \<Rightarrow> 'a media_state \<Rightarrow> 'a media_state" where
  "clearTimeout tid st = st\<lparr>timers := (timers st)(tid := None)\<rparr>"

text \<open>\<^verbatim>\<open>!userId\<close> on an optional identifier: absent or 0.\<close>

definition falsy_id :: "int option \<Rightarrow> bool" where
  "falsy_id v = (case v of None \<Rightarrow> True | Some n \<Rightarrow> n = 0)"

text \<open>
  \<^verbatim>\<open>processGroup\<close> up to its first \<^verbatim>\<open>await\<close>: it takes the group out of the live map and
  reads the sender and the chat.  \<^term>\<open>None\<close> is an early \<^verbatim>\<open>return\<close>; otherwise the result
  holds what the rest of the function works on.
\<close>

definition processGroup_sync ::
  "string \<Rightarrow> 'a media_state \<Rightarrow> ('a PendingMediaGroup \<times> 'a batch) option \<times> 'a media_state" where
  "processGroup_sync groupId st =
     (case pendingGroups st groupId of
        None \<Rightarrow> (None, st)
      | Some g \<Rightarrow>
          let st1 = st\<lparr>pendingGroups := (pendingGroups st)(groupId := None)\<rparr>
          in if falsy_id (from_id (ctx g)) \<or> falsy_id (chat_id (ctx g)) then (None, st1)
             else (Some (g, \<lparr>batch_group = groupId, batch_items = items g,
                             batch_caption = caption g,
                             batch_userId = (case from_id (ctx g) of Some u \<Rightarrow> u | None \<Rightarrow> 0),
                             batch_username =
                               (if truthy (from_username (ctx g)) then show_opt (from_username (ctx g))
                                else ''unknown''),
                             batch_chatId = (case chat_id (ctx g) of Some c \<Rightarrow> c | None \<Rightarrow> 0)\<rparr>),
                   st1))"

text \<open>
  The rest of \<^verbatim>\<open>processGroup\<close>: the status message is edited (a failure is logged and
  ignored), the callback is called, and the status message is deleted (likewise).  The
  result is \<open>False\<close> when the callback throws.
\<close>

definition processGroup_rest ::
  "MediaGroupConfig \<Rightarrow> 'a callback \<Rightarrow> 'a PendingMediaGroup \<times> 'a batch \<Rightarrow> 'a media_state
     \<Rightarrow> bool \<times> 'a media_state" where
  "processGroup_rest config processCallback gb st =
     (let g = fst gb; b = snd gb;
          t1 = snd (editMessageText (statusMsg g) Plain
                      (emoji config @ '' Processing '' @ show_nat (length (items g)) @ '' ''
                         @ itemLabelPlural config @ ''...'') (chat st));
          r = processCallback b t1;
          st2 = st\<lparr>chat := snd r, batches := batches st @ [b]\<rparr>
      in if \<not> fst r then (False, st2)
         else (True, st2\<lparr>chat := snd (deleteMessage (statusMsg g) (snd r))\<rparr>))"

definition processGroup ::
  "MediaGroupConfig \<Rightarrow> 'a callback \<Rightarrow> string \<Rightarrow> 'a media_state \<Rightarrow> bool \<times> 'a media_state" where
  "processGroup config processCallback groupId st =
     (let r = processGroup_sync groupId st
      in case fst r of
           None \<Rightarrow> (True, snd r)
         | Some gb \<Rightarrow> processGroup_rest config processCallback gb (snd r))"

text \<open>
  \<^verbatim>\<open>addToGroup\<close> at the clock reading \<open>now\<close>, in its two halves.  For a group that is not
  in the live map the call is suspended at \<^verbatim>\<open>await ctx.reply(...)\<close>, between
  \<^verbatim>\<open>pendingGroups.has(mediaGroupId)\<close> and \<^verbatim>\<open>pendingGroups.set(mediaGroupId, ...)\<close>: the first
  half ends there, awaiting the handle of the status message (\<^term>\<open>None\<close> when the reply
  throws), and the second half starts when the reply has resolved; other handlers and
  timers may run in between.  In every other case the first half is the whole call.
  The result of the call is \<open>Some True\<close> when the item was added, \<open>Some False\<close> when it was
  rate limited, and \<^term>\<open>None\<close> when a \<^verbatim>\<open>ctx.reply\<close> threw.  The audit log is a file outside
  the model, and the notice of the rate limit is sent without the number of seconds.
\<close>

datatype add_step = Returned "bool option" | Awaiting "nat option"

definition addToGroup_begin ::
  "config \<Rightarrow> MediaGroupConfig \<Rightarrow> int \<Rightarrow> string \<Rightarrow> 'a \<Rightarrow> Context \<Rightarrow> int \<Rightarrow> string
     \<Rightarrow> 'a media_state \<Rightarrow> add_step \<times> 'a media_state" where
  "addToGroup_begin cfg config now mediaGroupId item c userId username st =
     (case pendingGroups st mediaGroupId of
        None \<Rightarrow>
          let chk = check cfg now userId (rate st);
              st1 = st\<lparr>rate := snd chk\<rparr>
          in if \<not> fst (fst chk)
             then (let r = reply Plain ''Rate limited. Please wait.'' (chat st1)
                   in (Returned (if fst r = None then None else Some False), st1\<lparr>chat := snd r\<rparr>))
             else
               (let r = reply Plain (emoji config @ '' Receiving '' @ itemLabelPlural config @ ''...'')
                          (chat st1)
                in (Awaiting (fst r), st1\<lparr>chat := snd r\<rparr>))
      | Some g \<Rightarrow>
          let g1 = g\<lparr>items := items g @ [item]\<rparr>;
              g2 = (if truthy (message_caption c) \<and> \<not> truthy (caption g1)
                    then g1\<lparr>caption := message_caption c\<rparr> else g1);
              tm = setTimeout mediaGroupId (clearTimeout (timeout g2) st)
          in (Returned (Some True),
              (snd tm)\<lparr>pendingGroups := (pendingGroups (snd tm))(mediaGroupId \<mapsto>
                 g2\<lparr>timeout := fst tm\<rparr>)\<rparr>))"

definition addToGroup_resume ::
  "string \<Rightarrow> 'a \<Rightarrow> Context \<Rightarrow> nat option \<Rightarrow> 'a media_state \<Rightarrow> bool option \<times> 'a media_state" where
  "addToGroup_resume mediaGroupId item c statusMessage st =
     (case statusMessage of
        None \<Rightarrow> (None, st)
      | Some msg \<Rightarrow>
          let tm = setTimeout mediaGroupId st
          in (Some True,
              (snd tm)\<lparr>pendingGroups := (pendingGroups (snd tm))(mediaGroupId \<mapsto>
                 \<lparr>items = [item], ctx = c, caption = message_caption c,
                  statusMsg = msg, timeout = fst tm\<rparr>)\<rparr>))"

text \<open>
  The call of \<^verbatim>\<open>addToGroup\<close> during which nothing else runs: the second half follows the
  first one at once.
\<close>

definition addToGroup ::
  "config \<Rightarrow> MediaGroupConfig \<Rightarrow> int \<Rightarrow> string \<Rightarrow> 'a \<Rightarrow> Context \<Rightarrow> int \<Rightarrow> string
     \<Rightarrow> 'a media_state \<Rightarrow> bool option \<times> 'a media_state" where
  "addToGroup cfg config now mediaGroupId item c userId username st =
     (case pendingGroups st mediaGroupId of
        None \<Rightarrow>
          let chk = check cfg now userId (rate st);
              st1 = st\<lparr>rate := snd chk\<rparr>
          in if \<not> fst (fst chk)
             then (let r = reply Plain ''Rate limited. Please wait.'' (chat st1)
                   in (if fst r = None then None else Some False, st1\<lparr>chat := snd r\<rparr>))
             else
               (let r = reply Plain (emoji config @ '' Receiving '' @ itemLabelPlural config @ ''...'')
                          (chat st1);
                    st2 = st1\<lparr>chat := snd r\<rparr>
                in case fst r of
                     None \<Rightarrow> (None, st2)
                   | Some msg \<Rightarrow>
                       let tm = setTimeout mediaGroupId st2
                       in (Some True,
                           (snd tm)\<lparr>pendingGroups := (pendingGroups (snd tm))(mediaGroupId \<mapsto>
                              \<lparr>items = [item], ctx = c, caption = message_caption c,
                               statusMsg = msg, timeout = fst tm\<rparr>)\<rparr>))
      | Some g \<Rightarrow>
          let g1 = g\<lparr>items := items g @ [item]\<rparr>;
              g2 = (if truthy (message_caption c) \<and> \<not> truthy (caption g1)
                    then g1\<lparr>caption := message_caption c\<rparr> else g1);
              tm = setTimeout mediaGroupId (clearTimeout (timeout g2) st)
          in (Some True,
              (snd tm)\<lparr>pendingGroups := (pendingGroups (snd tm))(mediaGroupId \<mapsto>
                 g2\<lparr>timeout := fst tm\<rparr>)\<rparr>))"

text \<open>
  What happens to a buffer when the calls of \<^verbatim>\<open>addToGroup\<close> do not overlap: a handler calls
  \<^verbatim>\<open>addToGroup\<close> and the call returns, or a timer comes due.  A timer that was cleared, or
  that fired before, does nothing.
\<close>

datatype 'a buffer_event =
  Add int string 'a Context int string
  | Fire nat

fun buffer_step ::
  "config \<Rightarrow> MediaGroupConfig \<Rightarrow> 'a callback \<Rightarrow> 'a buffer_event \<Rightarrow> 'a media_state \<Rightarrow> 'a media_state" where
  "buffer_step cfg config cb (Add now gid item c userId username) st =
     snd (addToGroup cfg config now gid item c userId username st)"
| "buffer_step cfg config cb (Fire tid) st =
     (case timers st tid of
        None \<Rightarrow> st
      | Some gid \<Rightarrow> snd (processGroup config cb gid (clearTimeout tid st)))"

fun buffer_run ::
  "config \<Rightarrow> MediaGroupConfig \<Rightarrow> 'a callback \<Rightarrow> 'a buffer_event list \<Rightarrow> 'a media_state \<Rightarrow> 'a media_state" where
  "buffer_run cfg config cb [] st = st"
| "buffer_run cfg config cb (e # es) st = buffer_run cfg config cb es (buffer_step cfg config cb e st)"

text \<open>
  The items that \<^verbatim>\<open>addToGroup\<close> accepted for a group during a run (it returned true),
  in the order of their arrival.
\<close>

fun accepted ::
  "config \<Rightarrow> MediaGroupConfig \<Rightarrow> 'a callback \<Rightarrow> string \<Rightarrow> 'a buffer_event list \<Rightarrow> 'a media_state \<Rightarrow> 'a list" where
  "accepted cfg config cb gid [] st = []"
| "accepted cfg config cb gid (e # es) st =
     (case e of
        Add now gid' item c userId username \<Rightarrow>
          (if gid' = gid \<and> fst (addToGroup cfg config now gid' item c userId username st) = Some True
           then [item] else [])
      | Fire tid \<Rightarrow> [])
     @ accepted cfg config cb gid es (buffer_step cfg config cb e st)"

text \<open>The items handed to the callback for a group so far, and the items it still holds.\<close>

definition delivered :: "string \<Rightarrow> 'a media_state \<Rightarrow> 'a list" where
  "delivered gid st = concat (map batch_items (filter (\<lambda>b. batch_group b = gid) (batches st)))"

definition buffered :: "string \<Rightarrow> 'a media_state \<Rightarrow> 'a list" where
  "buffered gid st = (case pendingGroups st gid of None \<Rightarrow> [] | Some g \<Rightarrow> items g)"

text \<open>Every group in the live map came with a sender and a chat, as \<^verbatim>\<open>handlePhoto\<close> ensures.\<close>

definition senders_known :: "'a media_state \<Rightarrow> bool" where
  "senders_known st =
     (\<forall>gid g. pendingGroups st gid = Some g \<longrightarrow>
         \<not> falsy_id (from_id (ctx g)) \<and> \<not> falsy_id (chat_id (ctx g)))"

fun sender_known :: "'a buffer_event \<Rightarrow> bool" where
  "sender_known (Add now gid item c userId username) =
     (\<not> falsy_id (from_id c) \<and> \<not> falsy_id (chat_id c))"
| "sender_known (Fire tid) = True"

text \<open>
  The groups that a run created (\<^verbatim>\<open>addToGroup\<close> found none under the id and set one up),
  the calls of the callback for a group so far, whether the group is in the live map,
  and the batch that a call of \<^verbatim>\<open>processGroup\<close> hands to the callback, if any.
\<close>

fun created ::
  "config \<Rightarrow> MediaGroupConfig \<Rightarrow> 'a callback \<Rightarrow> string \<Rightarrow> 'a buffer_event list \<Rightarrow> 'a media_state \<Rightarrow> nat" where
  "created cfg config cb gid [] st = 0"
| "created cfg config cb gid (e # es) st =
     (case e of
        Add now gid' item c userId username \<Rightarrow>
          (if gid' = gid \<and> pendingGroups st gid = None
              \<and> fst (addToGroup cfg config now gid' item c userId username st) = Some True
           then 1 else 0)
      | Fire tid \<Rightarrow> 0)
     + created cfg config cb gid es (buffer_step cfg config cb e st)"

definition batches_for :: "string \<Rightarrow> 'a media_state \<Rightarrow> nat" where
  "batches_for gid st = length (filter (\<lambda>b. batch_group b = gid) (batches st))"

definition live :: "string \<Rightarrow> 'a media_state \<Rightarrow> nat" where
  "live gid st = (if pendingGroups st gid = None then 0 else 1)"

definition handed :: "string \<Rightarrow> 'a media_state \<Rightarrow> 'a batch list" where
  "handed gid st = (case fst (processGroup_sync gid st) of None \<Rightarrow> [] | Some gb \<Rightarrow> [snd gb])"

definition emptyBuffer :: "'a media_state" where
  "emptyBuffer =
     \<lparr>pendingGroups = (\<lambda>g. None), timers = (\<lambda>n. None), next_timer = 0,
      rate = (\<lambda>u. None), chat = emptyChat, batches = []\<rparr>"

text \<open>
  What happens to a buffer when handlers overlap, as nothing in the source prevents:
  a handler enters \<^verbatim>\<open>addToGroup\<close> and runs its first half, a suspended handler resumes
  when its reply has resolved, or a timer comes due.  Handlers are told apart by a
  number.  The state holds the buffer, the suspended calls with what they hold (the
  group id, the item, the context and the outcome of the reply) and the results of
  the calls that have returned, in the order of their return.  \<^verbatim>\<open>processGroup\<close> takes the
  group out of the live map before its first \<^verbatim>\<open>await\<close> and does not read the map again, so
  it is one step here.
\<close>

datatype 'a handler_event =
  Enter nat int string 'a Context int string
  | Resume nat
  | Timer nat

record 'a handlers =
  buffer :: "'a media_state"
  suspended :: "nat \<Rightarrow> (string \<times> 'a \<times> Context \<times> nat option) option"
  results :: "(nat \<times> bool option) list"

fun handlers_step ::
  "config \<Rightarrow> MediaGroupConfig \<Rightarrow> 'a callback \<Rightarrow> 'a handler_event \<Rightarrow> 'a handlers \<Rightarrow> 'a handlers" where
  "handlers_step cfg config cb (Enter h now gid item c userId username) hs =
     (let r = addToGroup_begin cfg config now gid item c userId username (buffer hs)
      in case fst r of
           Returned res \<Rightarrow> hs\<lparr>buffer := snd r, results := results hs @ [(h, res)]\<rparr>
         | Awaiting m \<Rightarrow> hs\<lparr>buffer := snd r, suspended := (suspended hs)(h \<mapsto> (gid, item, c, m))\<rparr>)"
| "handlers_step cfg config cb (Resume h) hs =
     (case suspended hs h of
        None \<Rightarrow> hs
      | Some (gid, item, c, m) \<Rightarrow>
          let r = addToGroup_resume gid item c m (buffer hs)
          in hs\<lparr>buffer := snd r, suspended := (suspended hs)(h := None),
                results := results hs @ [(h, fst r)]\<rparr>)"
| "handlers_step cfg config cb (Timer tid) hs =
     hs\<lparr>buffer := buffer_step cfg config cb (Fire tid) (buffer hs)\<rparr>"

fun handlers_run ::
  "config \<Rightarrow> MediaGroupConfig \<Rightarrow> 'a callback \<Rightarrow> 'a handler_event list \<Rightarrow> 'a handlers \<Rightarrow> 'a handlers" where
  "handlers_run cfg config cb [] hs = hs"
| "handlers_run cfg config cb (e # es) hs = handlers_run cfg config cb es (handlers_step cfg config cb e hs)"

definition noHandlers :: "'a handlers" where
  "noHandlers = \<lparr>buffer = emptyBuffer, suspended = (\<lambda>h. None), results = []\<rparr>"

section \<open>The session operations (session.ts)\<close>

definition isActive :: "ClaudeSession \<Rightarrow> bool" where
  "isActive s = (sessionId s \<noteq> None)"

definition isRunning :: "ClaudeSession \<Rightarrow> bool" where
  "isRunning s = (isQueryRunning s \<or> isProcessing s)"

definition consumeInterruptFlag :: "ClaudeSession \<Rightarrow> bool \<times> ClaudeSession" where
  "consumeInterruptFlag s =
     (let was = wasInterruptedByNewMessage s;
          s1 = s\<lparr>wasInterruptedByNewMessage := False\<rparr>
      in (was, if was then s1\<lparr>stopRequested := False\<rparr> else s1))"

definition markInterrupt :: "ClaudeSession \<Rightarrow> ClaudeSession" where
  "markInterrupt s = s\<lparr>wasInterruptedByNewMessage := True\<rparr>"

definition clearStopRequested :: "ClaudeSession \<Rightarrow> ClaudeSession" where
  "clearStopRequested s = s\<lparr>stopRequested := False\<rparr>"

text \<open>\<^verbatim>\<open>startProcessing()\<close> and the cleanup function that it returns.\<close>

definition startProcessing :: "ClaudeSession \<Rightarrow> ClaudeSession" where
  "startProcessing s = s\<lparr>isProcessing := True\<rparr>"

definition stopProcessing :: "ClaudeSession \<Rightarrow> ClaudeSession" where
  "stopProcessing s = s\<lparr>isProcessing := False\<rparr>"

text \<open>The result of \<^verbatim>\<open>stop()\<close>: \<^verbatim>\<open>"stopped"\<close>, \<^verbatim>\<open>"pending"\<close> or \<^verbatim>\<open>false\<close>.\<close>

datatype stop_result = Stopped | Pending | NothingToStop

definition stop :: "ClaudeSession \<Rightarrow> stop_result \<times> ClaudeSession" where
  "stop s =
     (if isQueryRunning s \<and> abortController s \<noteq> None
      then (Stopped, s\<lparr>stopRequested := True, abortController := Some True\<rparr>)
      else if isProcessing s then (Pending, s\<lparr>stopRequested := True\<rparr>)
      else (NothingToStop, s))"

definition kill :: "ClaudeSession \<Rightarrow> ClaudeSession" where
  "kill s = s\<lparr>sessionId := None, lastActivity := None\<rparr>"

text \<open>
  \<^verbatim>\<open>handleStop\<close> (handlers/commands.ts) in its two halves, before and after
  \<^verbatim>\<open>await Bun.sleep(100)\<close>: it calls \<^verbatim>\<open>stop()\<close> when the session is running, and a tenth of a
  second later, when \<^verbatim>\<open>stop()\<close> returned \<^verbatim>\<open>"stopped"\<close> or \<^verbatim>\<open>"pending"\<close>, it clears the
  stop request so that the next message can proceed.
\<close>

definition handleStop_first :: "config \<Rightarrow> int option \<Rightarrow> ClaudeSession \<Rightarrow> stop_result \<times> ClaudeSession" where
  "handleStop_first cfg userId s =
     (if \<not> isAuthorized (map_option Num userId) (ALLOWED_USERS cfg) then (NothingToStop, s)
      else if isRunning s then stop s
      else (NothingToStop, s))"

definition handleStop_second :: "stop_result \<Rightarrow> ClaudeSession \<Rightarrow> ClaudeSession" where
  "handleStop_second r s = (if r \<noteq> NothingToStop then clearStopRequested s else s)"

section \<open>The engine and a turn (session.ts)\<close>

text \<open>
  The engine is the collaborator behind \<^verbatim>\<open>query()\<close>.  A call of it yields a stream of
  events and then ends or throws; every event comes with the clock reading at which
  the loop receives it.  Between two events another handler may call \<^verbatim>\<open>stop()\<close>.  Of the
  input of a tool the model keeps the command and the file path.
\<close>

datatype block =
  ThinkingBlock string
  | ToolUse string "string option" "string option"
  | TextBlock string

datatype sdk_event =
  Assistant "string option" "block list"
  | Result "string option" "TokenUsage option"
  | Other "string option"

datatype stream_item = Event int sdk_event | StopCalled

datatype ending = Ends | Throws string

record query_run =
  items_of :: "stream_item list"
  ending_of :: ending

record query_call =
  prompt :: string
  resume :: "json option"
  maxThinkingTokens :: nat

text \<open>
  What a turn works on: the session, the chat, the persisted session record, the
  clock, the engine (its answer to each call, by the number of the call), the calls
  made to it so far, each with its options, and the rate limiter.
\<close>

record world =
  session :: ClaudeSession
  wchat :: telegram
  disk :: session_file
  clock :: int
  engine :: "nat \<Rightarrow> query_run"
  queries :: "query_call list"
  limiter :: buckets

definition getThinkingLevel :: "config \<Rightarrow> string \<Rightarrow> nat" where
  "getThinkingLevel cfg message =
     (let msgLower = toLowerCase message
      in if list_ex (\<lambda>k. includes_str msgLower k) (THINKING_DEEP_KEYWORDS cfg) then 50000
         else if list_ex (\<lambda>k. includes_str msgLower k) (THINKING_KEYWORDS cfg) then 10000
         else 0)"

text \<open>The local variables of \<^verbatim>\<open>sendMessageStreaming\<close>, with the streaming state and the world.\<close>

record turn =
  responseParts :: "string list"
  currentSegmentId :: nat
  currentSegmentText :: string
  lastTextUpdate :: int
  queryCompleted :: bool
  sinkState :: StreamingState
  wld :: world

text \<open>\<^verbatim>\<open>await statusCallback(...)\<close> at the current clock reading.\<close>

definition callStatus :: "config \<Rightarrow> status \<Rightarrow> turn \<Rightarrow> turn option" where
  "callStatus cfg ev tn =
     (case statusCallback cfg (clock (wld tn)) ev (sinkState tn, wchat (wld tn)) of
        None \<Rightarrow> None
      | Some r \<Rightarrow> Some (tn\<lparr>sinkState := fst r, wld := (wld tn)\<lparr>wchat := snd r\<rparr>\<rparr>))"

text \<open>\<^verbatim>\<open>saveSession()\<close>: the record file is overwritten; a failure to write is logged.\<close>

definition saveSession :: "config \<Rightarrow> world \<Rightarrow> world" where
  "saveSession cfg w =
     (case sessionId (session w) of
        None \<Rightarrow> w
      | Some sid \<Rightarrow>
          if \<not> truthy_value (Some sid) then w
          else w\<lparr>disk := Parsed (JObject [(''session_id'', sid),
                                           (''saved_at'', JString (show_nat (nat (clock w)))),
                                           (''working_dir'', JString (WORKING_DIR cfg))])\<rparr>)"

text \<open>
  One content block of an assistant event.  The first component of the result is the
  error thrown, if any (as \<^verbatim>\<open>String(error)\<close> prints it).
\<close>

definition isTmpRead :: "config \<Rightarrow> string \<Rightarrow> string \<Rightarrow> bool" where
  "isTmpRead cfg toolName filePath =
     (toolName = ''Read'' \<and>
      (list_ex (\<lambda>p. prefix p filePath) (TEMP_PATHS cfg) \<or> includes_str filePath ''/.claude/''))"

definition processBlock :: "config \<Rightarrow> block \<Rightarrow> turn \<Rightarrow> (string option \<times> turn) option" where
  "processBlock cfg b tn =
     (case b of
        ThinkingBlock thinkingText \<Rightarrow>
          if thinkingText \<noteq> [] then map_option (Pair None) (callStatus cfg (Thinking thinkingText) tn)
          else Some (None, tn)
      | ToolUse toolName command file_path \<Rightarrow>
          (let cmd = (case command of None \<Rightarrow> [] | Some c \<Rightarrow> c);
               filePath = (case file_path of None \<Rightarrow> [] | Some f \<Rightarrow> f);
               safety = checkCommandSafety cfg cmd
           in if toolName = ''Bash'' \<and> \<not> fst safety
              then map_option (Pair (Some (''Error: Unsafe command blocked: '' @ snd safety)))
                     (callStatus cfg (Tool (''BLOCKED: '' @ snd safety)) tn)
              else if toolName \<in> set [''Read'', ''Write'', ''Edit''] \<and> filePath \<noteq> []
                      \<and> \<not> isTmpRead cfg toolName filePath \<and> \<not> isPathAllowed cfg filePath
              then map_option (Pair (Some (''Error: File access blocked: '' @ filePath)))
                     (callStatus cfg (Tool (''Access denied: '' @ filePath)) tn)
              else
                (case (if currentSegmentText tn \<noteq> []
                       then map_option
                              (\<lambda>x. x\<lparr>currentSegmentId := Suc (currentSegmentId x), currentSegmentText := []\<rparr>)
                              (callStatus cfg (SegmentEnd (currentSegmentText tn) (currentSegmentId tn)) tn)
                       else Some tn) of
                   None \<Rightarrow> None
                 | Some tn1 \<Rightarrow>
                     (let toolDisplay = formatToolStatus cfg toolName command file_path;
                          tn2 = tn1\<lparr>wld := (wld tn1)\<lparr>session := (session (wld tn1))
                                   \<lparr>currentTool := Some toolDisplay, lastTool := Some toolDisplay\<rparr>\<rparr>\<rparr>
                      in map_option (Pair None) (callStatus cfg (Tool toolDisplay) tn2))))
      | TextBlock txt \<Rightarrow>
          (let tn1 = tn\<lparr>responseParts := responseParts tn @ [txt],
                        currentSegmentText := currentSegmentText tn @ txt\<rparr>
           in if clock (wld tn1) - lastTextUpdate tn1 > STREAMING_THROTTLE_MS cfg
                 \<and> length (currentSegmentText tn1) > 20
              then map_option (\<lambda>x. (None, x\<lparr>lastTextUpdate := clock (wld tn1)\<rparr>))
                     (callStatus cfg (Text (currentSegmentText tn1) (currentSegmentId tn1)) tn1)
              else Some (None, tn1)))"

fun processBlocks :: "config \<Rightarrow> block list \<Rightarrow> turn \<Rightarrow> (string option \<times> turn) option" where
  "processBlocks cfg [] tn = Some (None, tn)"
| "processBlocks cfg (b # bs) tn =
     (case processBlock cfg b tn of
        None \<Rightarrow> None
      | Some r \<Rightarrow> if fst r = None then processBlocks cfg bs (snd r) else Some r)"

text \<open>The session id that an event carries.\<close>

fun event_session_id :: "sdk_event \<Rightarrow> string option" where
  "event_session_id (Assistant sid bs) = sid"
| "event_session_id (Result sid u) = sid"
| "event_session_id (Other sid) = sid"

text \<open>
  The body of the loop for one event, after the check of the stop request: the session
  id is adopted and saved when none is known, then the event is handled by its type.
\<close>

definition processEvent :: "config \<Rightarrow> sdk_event \<Rightarrow> turn \<Rightarrow> (string option \<times> turn) option" where
  "processEvent cfg ev tn =
     (let w0 = wld tn;
          w1 = (if \<not> truthy_value (sessionId (session w0)) \<and> truthy (event_session_id ev)
                then saveSession cfg
                       (w0\<lparr>session := (session w0)\<lparr>sessionId := map_option JString (event_session_id ev)\<rparr>\<rparr>)
                else w0);
          tn1 = tn\<lparr>wld := w1\<rparr>
      in case ev of
           Assistant sid bs \<Rightarrow> processBlocks cfg bs tn1
         | Result sid u \<Rightarrow>
             Some (None, tn1\<lparr>queryCompleted := True,
                             wld := (if u = None then w1
                                     else w1\<lparr>session := (session w1)\<lparr>lastUsage := u\<rparr>\<rparr>)\<rparr>)
         | Other sid \<Rightarrow> Some (None, tn1))"

text \<open>
  How the \<^verbatim>\<open>for await\<close> loop is left: the stream is exhausted, the loop breaks on a
  stop request, or something throws.
\<close>

datatype loop_exit = Exhausted | Broke | Thrown string

fun processItems :: "config \<Rightarrow> stream_item list \<Rightarrow> turn \<Rightarrow> (loop_exit \<times> turn) option" where
  "processItems cfg [] tn = Some (Exhausted, tn)"
| "processItems cfg (StopCalled # more_items) tn =
     processItems cfg more_items (tn\<lparr>wld := (wld tn)\<lparr>session := snd (stop (session (wld tn)))\<rparr>\<rparr>)"
| "processItems cfg (Event t ev # more_items) tn =
     (let tn0 = tn\<lparr>wld := (wld tn)\<lparr>clock := t\<rparr>\<rparr>
      in if stopRequested (session (wld tn0)) then Some (Broke, tn0)
         else (case processEvent cfg ev tn0 of
                 None \<Rightarrow> None
               | Some r \<Rightarrow>
                   (case fst r of
                      Some err \<Rightarrow> Some (Thrown err, snd r)
                    | None \<Rightarrow> processItems cfg more_items (snd r))))"

text \<open>The \<^verbatim>\<open>finally\<close> clause.\<close>

definition finally_clause :: "ClaudeSession \<Rightarrow> ClaudeSession" where
  "finally_clause s =
     s\<lparr>isQueryRunning := False, abortController := None, queryStarted := None, currentTool := None\<rparr>"

text \<open>
  \<^verbatim>\<open>sendMessageStreaming(message, username, userId, statusCallback)\<close>, the callback being
  the one made for the given streaming state, in its parts.  First the options of the
  call: the prompt (with the date and time in front when no session is active), the
  resume handle and the thinking budget.
\<close>

definition turnCall :: "config \<Rightarrow> string \<Rightarrow> world \<Rightarrow> query_call" where
  "turnCall cfg message w =
     \<lparr>prompt = (if \<not> isActive (session w)
                then ''[Current date/time: '' @ toLocaleDateString cfg (clock w) @ '']''
                       @ [CHR 0x0A, CHR 0x0A] @ message
                else message),
      resume = (if truthy_value (sessionId (session w)) then sessionId (session w) else None),
      maxThinkingTokens = getThinkingLevel cfg message\<rparr>"

text \<open>
  A session that is resumed (\<^verbatim>\<open>this.sessionId && !isNewSession\<close>) keeps its id, and the log
  names the first eight characters of it; otherwise the id is reset to \<^verbatim>\<open>null\<close>.
\<close>

definition resumes :: "ClaudeSession \<Rightarrow> bool" where
  "resumes s = (truthy_value (sessionId s) \<and> isActive s)"

definition sessionForTurn :: "ClaudeSession \<Rightarrow> ClaudeSession" where
  "sessionForTurn s = (if resumes s then s else s\<lparr>sessionId := None\<rparr>)"

text \<open>
  The statements between the check of the stop request and the \<^verbatim>\<open>try\<close> block, and the
  call of \<^verbatim>\<open>query()\<close> that opens the block.
\<close>

definition startQuery :: "config \<Rightarrow> string \<Rightarrow> world \<Rightarrow> world" where
  "startQuery cfg message w =
     w\<lparr>session := (sessionForTurn (session w))
          \<lparr>abortController := Some False, isQueryRunning := True, stopRequested := False,
           queryStarted := Some (clock w), currentTool := None\<rparr>,
       queries := queries w @ [turnCall cfg message w]\<rparr>"

text \<open>
  The \<^verbatim>\<open>try\<close> block: the loop over the stream of the given run.  The result is the error
  that leaves the block, if any, and the local state.
\<close>

definition runQuery :: "config \<Rightarrow> query_run \<Rightarrow> StreamingState \<Rightarrow> world \<Rightarrow> (string option \<times> turn) option" where
  "runQuery cfg run state w =
     (case processItems cfg (items_of run)
             \<lparr>responseParts = [], currentSegmentId = 0, currentSegmentText = [],
              lastTextUpdate = 0, queryCompleted = False, sinkState = state, wld = w\<rparr> of
        None \<Rightarrow> None
      | Some r \<Rightarrow>
          Some (case fst r of
                  Thrown err \<Rightarrow> Some err
                | Broke \<Rightarrow> None
                | Exhausted \<Rightarrow> (case ending_of run of Ends \<Rightarrow> None | Throws err \<Rightarrow> Some err),
                snd r))"

text \<open>
  The \<^verbatim>\<open>catch\<close> clause: an error that reads like a cancellation is suppressed when the
  query had completed or a stop was requested; every other error is thrown again.
\<close>

definition rethrown :: "string option \<Rightarrow> turn \<Rightarrow> string option" where
  "rethrown thrown tn =
     (case thrown of
        None \<Rightarrow> None
      | Some err \<Rightarrow>
          if (includes_str (toLowerCase err) ''cancel'' \<or> includes_str (toLowerCase err) ''abort'')
             \<and> (queryCompleted tn \<or> stopRequested (session (wld tn)))
          then None else Some err)"

text \<open>The turn fails: the error is recorded, and the \<^verbatim>\<open>finally\<close> clause runs.\<close>

definition failTurn :: "string \<Rightarrow> turn \<Rightarrow> (string + string) \<times> StreamingState \<times> world" where
  "failTurn err tn =
     (Inl err, sinkState tn,
      (wld tn)\<lparr>session := finally_clause
         ((session (wld tn))\<lparr>lastError := Some (take 100 err),
                             lastErrorTime := Some (clock (wld tn))\<rparr>)\<rparr>)"

text \<open>
  The turn completes: the \<^verbatim>\<open>finally\<close> clause runs, the last segment is closed, \<^verbatim>\<open>done\<close> is
  sent and the response is returned.
\<close>

definition completeTurn :: "config \<Rightarrow> turn \<Rightarrow> ((string + string) \<times> StreamingState \<times> world) option" where
  "completeTurn cfg tn =
     (let tn2 = tn\<lparr>wld := (wld tn)\<lparr>session := (finally_clause (session (wld tn)))
                        \<lparr>lastActivity := Some (clock (wld tn)), lastError := None,
                         lastErrorTime := None\<rparr>\<rparr>\<rparr>
      in case (if currentSegmentText tn2 \<noteq> []
               then callStatus cfg (SegmentEnd (currentSegmentText tn2) (currentSegmentId tn2)) tn2
               else Some tn2) of
           None \<Rightarrow> None
         | Some tn3 \<Rightarrow>
             (case callStatus cfg Done tn3 of
                None \<Rightarrow> None
              | Some tn4 \<Rightarrow>
                  Some (Inr (if concat (responseParts tn4) = [] then ''No response from Claude.''
                             else concat (responseParts tn4)),
                        sinkState tn4, wld tn4)))"

text \<open>
  The whole function.  The result is the error thrown (\<open>Inl\<close>, as \<^verbatim>\<open>String(error)\<close> prints
  it) or the response (\<open>Inr\<close>), with the streaming state and the world afterwards;
  \<^term>\<open>None\<close> is a call that does not return.  The engine's answer to a call is looked up
  by the number of calls made before it.  The first exit is the \<^verbatim>\<open>TypeError\<close> of
  \<^verbatim>\<open>this.sessionId.slice(0, 8)\<close> in the log of a resumed session, when the id is neither a
  string nor an array; the second is the check of the stop request.
\<close>

definition sendMessageStreaming ::
  "config \<Rightarrow> string \<Rightarrow> StreamingState \<Rightarrow> world
     \<Rightarrow> ((string + string) \<times> StreamingState \<times> world) option" where
  "sendMessageStreaming cfg message state w =
     (if resumes (session w) \<and> slice8 cfg (sessionId (session w)) = None
      then Some (Inl (typeError cfg ''this.sessionId.slice''), state, w)
      else if stopRequested (sessionForTurn (session w))
      then Some (Inl ''Error: Query cancelled'', state,
                 w\<lparr>session := (sessionForTurn (session w))\<lparr>stopRequested := False\<rparr>\<rparr>)
      else
        (case runQuery cfg (engine w (length (queries w))) state (startQuery cfg message w) of
           None \<Rightarrow> None
         | Some r \<Rightarrow>
             (case rethrown (fst r) (snd r) of
                Some err \<Rightarrow> Some (failTurn err (snd r))
              | None \<Rightarrow> completeTurn cfg (snd r))))"

section \<open>The assistant handler (handlers/assistant.ts)\<close>

definition MAX_RETRIES :: nat where
  "MAX_RETRIES = 1"

text \<open>\<^verbatim>\<open>message.trim()\<close>.\<close>

definition trim :: "string \<Rightarrow> string" where
  "trim s = rev (dropWhile isSpace (rev (dropWhile isSpace s)))"

text \<open>The signs that start the handler's notices, as their UTF-8 bytes.\<close>

definition warning_sign :: string where
  "warning_sign = [CHR 0xE2, CHR 0x9A, CHR 0xA0, CHR 0xEF, CHR 0xB8, CHR 0x8F]"

definition stop_sign :: string where
  "stop_sign = [CHR 0xF0, CHR 0x9F, CHR 0x9B, CHR 0x91]"

definition cross_mark :: string where
  "cross_mark = [CHR 0xE2, CHR 0x9D, CHR 0x8C]"

definition isClaudeCodeCrash :: "string \<Rightarrow> bool" where
  "isClaudeCodeCrash errorStr = includes_str errorStr ''exited with code''"

definition isCancellation :: "string \<Rightarrow> bool" where
  "isCancellation errorStr = (includes_str errorStr ''abort'' \<or> includes_str errorStr ''cancel'')"

text \<open>
  A \<^verbatim>\<open>ctx.reply\<close> of the handler outside any \<^verbatim>\<open>try\<close>: when it throws, the handler ends
  with the exception (\<open>False\<close>).
\<close>

definition notify :: "string \<Rightarrow> world \<Rightarrow> bool \<times> world" where
  "notify txt w = (let r = reply Plain txt (wchat w) in (fst r \<noteq> None, w\<lparr>wchat := snd r\<rparr>))"

text \<open>
  The loop \<^verbatim>\<open>for (let attempt = 0; attempt <= MAX_RETRIES; attempt++)\<close>.  The result tells
  whether the loop was left normally (\<open>True\<close>) or by an exception of a reply.
\<close>

function retryLoop :: "config \<Rightarrow> nat \<Rightarrow> string \<Rightarrow> StreamingState \<Rightarrow> world \<Rightarrow> (bool \<times> world) option" where
  "retryLoop cfg attempt trimmed state w =
     (if attempt \<le> MAX_RETRIES then
        (case sendMessageStreaming cfg trimmed state w of
           None \<Rightarrow> None
         | Some r \<Rightarrow>
             (case fst r of
                Inr response \<Rightarrow> Some (True, snd (snd r))
              | Inl errorStr \<Rightarrow>
                  (let w1 = (snd (snd r))\<lparr>wchat := deleteAll (toolMessages (fst (snd r)))
                                                     (wchat (snd (snd r)))\<rparr>
                   in if isClaudeCodeCrash errorStr \<and> attempt < MAX_RETRIES
                      then (let n = notify (warning_sign @ '' Claude crashed, retrying...'')
                                      (w1\<lparr>session := kill (session w1)\<rparr>)
                            in if fst n then retryLoop cfg (attempt + 1) trimmed freshState (snd n)
                               else Some (False, snd n))
                      else if isCancellation errorStr
                      then (let c = consumeInterruptFlag (session w1);
                                w2 = w1\<lparr>session := snd c\<rparr>
                            in if fst c then Some (True, w2)
                               else Some (notify (stop_sign @ '' Query stopped.'') w2))
                      else Some (notify (cross_mark @ '' Error: '' @ take 200 errorStr) w1))))
      else Some (True, w))"
  by pat_completeness auto
termination
  by (relation "measure (\<lambda>(cfg, attempt, trimmed, state, w). Suc MAX_RETRIES - attempt)") auto

declare retryLoop.simps [simp del]

text \<open>
  \<^verbatim>\<open>handleAssistantMessage(ctx, message)\<close>.  The audit log and the typing indicator are
  outside the model.
\<close>

definition handleAssistantMessage :: "config \<Rightarrow> Context \<Rightarrow> string \<Rightarrow> world \<Rightarrow> (bool \<times> world) option" where
  "handleAssistantMessage cfg c message w =
     (if falsy_id (from_id c) \<or> falsy_id (chat_id c) then Some (True, w)
      else if \<not> isAuthorized (map_option Num (from_id c)) (ALLOWED_USERS cfg)
      then Some (notify ''Unauthorized. Contact the bot owner for access.'' w)
      else
        (let chk = check cfg (clock w) (case from_id c of Some u \<Rightarrow> u | None \<Rightarrow> 0) (limiter w);
             w1 = w\<lparr>limiter := snd chk\<rparr>
         in if \<not> fst (fst chk) then Some (notify ''Rate limited. Please wait.'' w1)
            else if trim message = [] then Some (notify ''Please include a message after /claude.'' w1)
            else
              (let w2 = w1\<lparr>session := startProcessing ((session w1)\<lparr>lastMessage := Some (trim message)\<rparr>)\<rparr>
               in case retryLoop cfg 0 (trim message) freshState w2 of
                    None \<Rightarrow> None
                  | Some r \<Rightarrow>
                      if fst r then Some (True, (snd r)\<lparr>session := stopProcessing (session (snd r))\<rparr>)
                      else Some r)))"

text \<open>
  A configuration used to run the model on concrete inputs: two requests per window of
  eight seconds (a refill rate of a quarter token per second, so that every number
  below is exact in binary floating point as well), one vault directory, one
  directory for temporary files, a file system without symbolic links in which
  \<^verbatim>\<open>realpathSync\<close> finds the two roots and nothing else, display units of at most ten
  characters that are split into pieces of four, and formatting functions that leave
  the text as it is.
\<close>

definition example_config :: config where
  "example_config =
     \<lparr>ALLOWED_USERS = [Num 42],
      ALLOWED_PATHS = [''/home/claude/vault''],
      TEMP_PATHS = [''/tmp/''],
      BLOCKED_PATTERNS = [''rm -rf /'', ''sudo rm''],
      RATE_LIMIT_ENABLED = True,
      RATE_LIMIT_REQUESTS = 2,
      RATE_LIMIT_WINDOW = 8,
      WORKING_DIR = ''/home/claude/vault'',
      TELEGRAM_MESSAGE_LIMIT = 10,
      TELEGRAM_SAFE_LIMIT = 4,
      STREAMING_THROTTLE_MS = 500,
      HOME = Some ''/home/claude'',
      cwd = ''/home/claude/vault'',
      realpathSync = (\<lambda>p. if p = ''/home/claude/vault'' \<or> p = ''/tmp'' then Some p else None),
      convertMarkdownToHtml = (\<lambda>x. x),
      escapeHtml = (\<lambda>x. x),
      formatToolStatus = (\<lambda>name command path. name),
      toLocaleDateString = (\<lambda>t. ''today''),
      numberToString = (\<lambda>n. ''number''),
      typeError = (\<lambda>e. ''TypeError: '' @ e @ '' is not a function''),
      THINKING_KEYWORDS = [''think''],
      THINKING_DEEP_KEYWORDS = [''ultrathink'']\<rparr>"

text \<open>The same with one request per window of ten seconds: a tenth of a token per second.\<close>

definition slow_config :: config where
  "slow_config = example_config\<lparr>RATE_LIMIT_REQUESTS := 1, RATE_LIMIT_WINDOW := 10\<rparr>"

text \<open>
  An album for the example runs: three photos of the group \<^verbatim>\<open>g1\<close> (the second with a
  caption) and one of the group \<^verbatim>\<open>g2\<close> in between, then the timers: the first one of
  \<^verbatim>\<open>g1\<close>, which the later arrivals cleared, its last one twice, and the one of \<^verbatim>\<open>g2\<close>.
  The callback of the example does nothing and returns.
\<close>

definition photos :: MediaGroupConfig where
  "photos = \<lparr>emoji = ''[photo]'', itemLabel = ''photo'', itemLabelPlural = ''photos''\<rparr>"

definition sender :: Context where
  "sender = \<lparr>from_id = Some 42, from_username = Some ''ann'', chat_id = Some 7, message_caption = None\<rparr>"

definition album :: "nat buffer_event list" where
  "album = [Add 0 ''g1'' 1 sender 42 ''ann'', Add 100 ''g2'' 9 sender 42 ''ann'',
            Add 500 ''g1'' 2 (sender\<lparr>message_caption := Some ''trip''\<rparr>) 42 ''ann'',
            Add 900 ''g1'' 3 sender 42 ''ann'',
            Fire 0, Fire 3, Fire 3, Fire 1]"

definition quiet :: "nat callback" where
  "quiet b t = (True, t)"

text \<open>
  Two photos of a new album whose handlers overlap: both enter \<^verbatim>\<open>addToGroup\<close> before the
  status reply of either has resolved; then the two timers come due.  The same photos
  without overlap.  A callback that tells the chat how many items it was given.
\<close>

definition overlapping :: "nat handler_event list" where
  "overlapping = [Enter 1 0 ''g1'' 1 sender 42 ''ann'', Enter 2 0 ''g1'' 2 sender 42 ''ann'',
                  Resume 1, Resume 2, Timer 0, Timer 1]"

definition in_turn :: "nat handler_event list" where
  "in_turn = [Enter 1 0 ''g1'' 1 sender 42 ''ann'', Resume 1, Enter 2 0 ''g1'' 2 sender 42 ''ann'',
              Timer 0, Timer 1]"

definition announce :: "nat callback" where
  "announce b t = (True, snd (reply Plain (''got '' @ show_nat (length (batch_items b))) t))"

text \<open>
  A segment in progress for the example runs: segment 0 is shown in the unit 5 with a
  truncated text, and the transport refuses its second call.
\<close>

definition liveSegment :: StreamingState where
  "liveSegment = freshState\<lparr>textMessages := [0 \<mapsto> 5], lastContent := [0 \<mapsto> ''abcd...'']\<rparr>"

definition liveChat :: telegram where
  "liveChat = \<lparr>shown = [(5, Html, ''abcd...'')], next_id = 6, api_calls = 0,
               api_ok = (\<lambda>n. n \<noteq> 1)\<rparr>"

text \<open>
  Engines for the example runs: a run that answers, one that answers in a few
  characters, a run that shows its thinking and
  a tool and then fails as the engine's process does when it crashes, and a run that
  fails with a crash of which the text also speaks of an abort.  The example world has
  a new session, an empty chat and no persisted record.
\<close>

definition answer :: query_run where
  "answer = \<lparr>items_of = [Event 1000010 (Assistant (Some ''sess-2'') [TextBlock ''Hello there, this is the answer.'']),
                          Event 1000020 (Result (Some ''sess-2'') None)],
             ending_of = Ends\<rparr>"

text \<open>A run whose answer is one short text.\<close>

definition short_answer :: query_run where
  "short_answer = \<lparr>items_of = [Event 1000010 (Assistant (Some ''sess-3'') [TextBlock ''Done.'']),
                               Event 1000020 (Result (Some ''sess-3'') None)],
                   ending_of = Ends\<rparr>"

definition crash :: query_run where
  "crash = \<lparr>items_of = [Event 1000010 (Assistant (Some ''sess-1'')
                           [ThinkingBlock ''hmm'', ToolUse ''Read'' None (Some ''/home/claude/vault/a.md'')])],
            ending_of = Throws ''Error: Claude Code process exited with code 1''\<rparr>"

definition crash_aborted :: query_run where
  "crash_aborted =
     \<lparr>items_of = [], ending_of = Throws ''Error: aborted, Claude Code process exited with code 134''\<rparr>"

definition exampleWorld :: "(nat \<Rightarrow> query_run) \<Rightarrow> world" where
  "exampleWorld e = \<lparr>session = newSession, wchat = emptyChat, disk = NoFile, clock = 1000000,
                     engine = e, queries = [], limiter = (\<lambda>u. None)\<rparr>"

section \<open>Properties of authorization\<close>

text \<open>
  Claim C10 as stated does not hold: the numbers \<^verbatim>\<open>0\<close> and \<^verbatim>\<open>NaN\<close> are defined and may be
  members of a non-empty allow-list (\<^verbatim>\<open>includes\<close> finds \<^verbatim>\<open>NaN\<close>), and \<^verbatim>\<open>!userId\<close> rejects
  them.
\<close>

theorem isAuthorized_zero_counterexample:
  "\<not> (isAuthorized (Some (Finite 0)) [Finite 0] \<longleftrightarrow>
        (Some (Finite 0) \<noteq> None \<and> [Finite 0] \<noteq> [] \<and> Finite 0 \<in> set [Finite 0]))
   \<and> \<not> (isAuthorized (Some NaN) [NaN] \<longleftrightarrow>
        (Some NaN \<noteq> None \<and> [NaN] \<noteq> [] \<and> NaN \<in> set [NaN]))"
  by (simp add: isAuthorized_def falsy_def)

text \<open>
  Claim C10, amended: \<^verbatim>\<open>isAuthorized(userId, allowedUsers)\<close> returns true if and only if
  \<open>userId\<close> is truthy (it is defined and is neither \<^verbatim>\<open>0\<close> nor \<^verbatim>\<open>NaN\<close>), the list is
  non-empty, and the list contains \<open>userId\<close>; in particular an empty allow-list denies
  every user.
\<close>

theorem isAuthorized_iff:
  "(isAuthorized userId allowedUsers \<longleftrightarrow>
      (\<exists>u. userId = Some u \<and> u \<noteq> Finite 0 \<and> u \<noteq> NaN \<and> allowedUsers \<noteq> []
           \<and> u \<in> set allowedUsers))
   \<and> isAuthorized userId [] = False"
  by (cases userId) (auto simp: isAuthorized_def falsy_def)

theorem isAuthorized_iff_witness:
  "isAuthorized (Some (Num 42)) [Num 7, Num 42] \<and> isAuthorized (Some PosInfinity) [PosInfinity]
   \<and> \<not> isAuthorized (Some (Num 42)) [] \<and> \<not> isAuthorized None [Num 7, Num 42]
   \<and> \<not> isAuthorized (Some (Num 0)) [Num 0] \<and> \<not> isAuthorized (Some NaN) [NaN]"
  using isAuthorized_iff [of "Some (Num 42)" "[Num 7, Num 42]"] isAuthorized_iff [of "Some (Num 42)" "[]"]
    isAuthorized_iff [of None "[Num 7, Num 42]"] isAuthorized_iff [of "Some PosInfinity" "[PosInfinity]"]
    isAuthorized_iff [of "Some (Num 0)" "[Num 0]"] isAuthorized_iff [of "Some NaN" "[NaN]"]
  by (simp add: Num_def)

section \<open>Properties of the rate limiter\<close>


lemma refillRate_nonneg: "0 \<le> RATE_LIMIT_REQUESTS cfg \<Longrightarrow> 0 < RATE_LIMIT_WINDOW cfg \<Longrightarrow> 0 \<le> refillRate cfg"
  by (simp add: refillRate_def)

lemma refill_le_max: "tokens (refill cfg now b) \<le> maxTokens cfg"
  by (simp add: refill_def Let_def)

lemma refill_nonneg:
  assumes "0 \<le> RATE_LIMIT_REQUESTS cfg" "0 < RATE_LIMIT_WINDOW cfg" "0 \<le> tokens b" "lastUpdate b \<le> now"
  shows "0 \<le> tokens (refill cfg now b)"
proof -
  have "0 \<le> real_of_int (now - lastUpdate b) / 1000 * refillRate cfg"
    using assms refillRate_nonneg[of cfg] by simp
  then show ?thesis using assms by (simp add: refill_def Let_def maxTokens_def)
qed

lemma check_enabled:
  "RATE_LIMIT_ENABLED cfg \<Longrightarrow>
   check cfg now u bs =
     (let b = refill cfg now (bucket_of cfg now (bs u))
      in if 1 \<le> tokens b then ((True, None), bs(u \<mapsto> b\<lparr>tokens := tokens b - 1\<rparr>))
         else ((False, Some ((1 - tokens b) / refillRate cfg)), bs(u \<mapsto> b)))"
  by (simp add: check_def bucket_of_def Let_def)


lemma check_step:
  assumes en: "RATE_LIMIT_ENABLED cfg"
    and cfg: "0 \<le> RATE_LIMIT_REQUESTS cfg" "0 < RATE_LIMIT_WINDOW cfg"
    and inv: "\<forall>b. bs u = Some b \<longrightarrow> bucket_ok cfg b"
  shows "\<exists>b'. snd (check cfg now u bs) u = Some b' \<and> lastUpdate b' = now \<and>
           tokens b' \<le> maxTokens cfg \<and>
           tokens (refill cfg now (bucket_of cfg now (bs u))) \<le> maxTokens cfg \<and>
           tokens b' = (if fst (fst (check cfg now u bs))
                        then tokens (refill cfg now (bucket_of cfg now (bs u))) - 1
                        else tokens (refill cfg now (bucket_of cfg now (bs u)))) \<and>
           ((\<forall>b. bs u = Some b \<longrightarrow> lastUpdate b \<le> now) \<longrightarrow> 0 \<le> tokens b')"
proof -
  let ?old = "bucket_of cfg now (bs u)"
  let ?new = "refill cfg now ?old"
  have le: "tokens ?new \<le> maxTokens cfg" by (rule refill_le_max)
  have lu: "lastUpdate ?new = now" by (simp add: refill_def Let_def)
  have b0: "0 \<le> tokens ?old"
    using inv cfg by (auto simp: bucket_of_def bucket_ok_def maxTokens_def split: option.splits)
  have nn: "0 \<le> tokens ?new" if "\<forall>b. bs u = Some b \<longrightarrow> lastUpdate b \<le> now"
  proof -
    have "lastUpdate ?old \<le> now" using that by (auto simp: bucket_of_def split: option.splits)
    then show ?thesis using refill_nonneg[OF cfg b0] by simp
  qed
  show ?thesis
  proof (cases "1 \<le> tokens ?new")
    case True
    then show ?thesis using le lu nn by (simp add: check_enabled[OF en] Let_def)
  next
    case False
    then show ?thesis using le lu nn by (simp add: check_enabled[OF en] Let_def)
  qed
qed






lemma refill_lastUpdate: "lastUpdate (refill cfg now b) = now"
  by (simp add: refill_def Let_def)




text \<open>
  Claim C5 as stated does not hold: the source computes the elapsed time as
  \<^verbatim>\<open>(now - bucket.lastUpdate) / 1000\<close> with no clamp, so a clock reading earlier than the
  bucket's last update takes tokens away.  A bucket within its bounds (one token, last
  updated at 8000 ms) checked at the clock reading 0 ms ends with \<open>-1\<close> tokens.
\<close>

theorem check_backwards_clock_counterexample:
  "bucket_ok example_config \<lparr>tokens = 1, lastUpdate = 8000\<rparr> \<and>
   map_option tokens
     (snd (check example_config 0 7 [7 \<mapsto> \<lparr>tokens = 1, lastUpdate = 8000\<rparr>]) 7) = Some (- 1) \<and>
   map_option (bucket_ok example_config)
     (snd (check example_config 0 7 [7 \<mapsto> \<lparr>tokens = 1, lastUpdate = 8000\<rparr>]) 7) = Some False"
  by (simp add: example_config_def check_def bucket_of_def refill_def maxTokens_def
      refillRate_def bucket_ok_def Let_def)

text \<open>
  Claim C5, amended: for every identity, with rate limiting enabled, a non-negative
  number of requests and a positive window, a check call on a bucket within its bounds
  (or on no bucket yet) leaves a bucket with \<open>tokens \<le> maxTokens\<close> for every pair of
  clock readings, and with \<open>0 \<le> tokens\<close> whenever the clock reading is not earlier than
  the bucket's last update (the source does not clamp the elapsed time); the refill is
  capped at \<open>maxTokens\<close>, an allowed call consumes exactly 1 token and a denied call
  consumes none.
\<close>

theorem check_bucket_bounds:
  assumes en: "RATE_LIMIT_ENABLED cfg"
    and cfg: "0 \<le> RATE_LIMIT_REQUESTS cfg" "0 < RATE_LIMIT_WINDOW cfg"
    and inv: "\<forall>b. bs u = Some b \<longrightarrow> bucket_ok cfg b"
  shows "\<exists>b'. snd (check cfg now u bs) u = Some b' \<and> lastUpdate b' = now \<and>
           tokens b' \<le> maxTokens cfg \<and>
           tokens (refill cfg now (bucket_of cfg now (bs u))) \<le> maxTokens cfg \<and>
           tokens b' = (if fst (fst (check cfg now u bs))
                        then tokens (refill cfg now (bucket_of cfg now (bs u))) - 1
                        else tokens (refill cfg now (bucket_of cfg now (bs u)))) \<and>
           ((\<forall>b. bs u = Some b \<longrightarrow> lastUpdate b \<le> now) \<longrightarrow> 0 \<le> tokens b')"
  using check_step [where bs=bs and u=u and now=now and cfg=cfg] assms by blast

theorem check_bucket_bounds_witness:
  "\<exists>b'. snd (check example_config 4000 7 [7 \<mapsto> \<lparr>tokens = 1 / 2, lastUpdate = 0\<rparr>]) 7 = Some b' \<and>
        lastUpdate b' = 4000 \<and> tokens b' = 1 / 2 \<and> tokens b' \<le> 2 \<and> 0 \<le> tokens b'"
  using check_bucket_bounds [of example_config "[7 \<mapsto> \<lparr>tokens = 1 / 2, lastUpdate = 0\<rparr>]" 7 4000]
  by (simp add: example_config_def check_def bucket_of_def refill_def maxTokens_def
      refillRate_def bucket_ok_def Let_def)


text \<open>
  In exact arithmetic a denied call reports a time after which the next check of the
  same identity is allowed.
\<close>

lemma check_retryAfter_exact:
  assumes en: "RATE_LIMIT_ENABLED cfg"
    and cfg: "1 \<le> RATE_LIMIT_REQUESTS cfg" "0 < RATE_LIMIT_WINDOW cfg"
    and den: "\<not> fst (fst (check cfg now u bs))"
  shows "\<exists>b'. snd (check cfg now u bs) u = Some b' \<and>
              snd (fst (check cfg now u bs)) = Some ((1 - tokens b') / refillRate cfg) \<and>
              (\<forall>now'. (1 - tokens b') / refillRate cfg \<le> real_of_int (now' - now) / 1000 \<longrightarrow>
                  fst (check cfg now' u (snd (check cfg now u bs))) = (True, None))"
proof -
  have rate: "0 < refillRate cfg" using cfg by (simp add: refillRate_def)
  let ?new = "refill cfg now (bucket_of cfg now (bs u))"
  have lt: "\<not> 1 \<le> tokens ?new"
    using den by (auto simp: check_enabled[OF en] Let_def split: if_splits)
  then have chk: "check cfg now u bs = ((False, Some ((1 - tokens ?new) / refillRate cfg)), bs(u \<mapsto> ?new))"
    by (simp add: check_enabled[OF en] Let_def)
  have "fst (check cfg now' u (bs(u \<mapsto> ?new))) = (True, None)"
    if wait: "(1 - tokens ?new) / refillRate cfg \<le> real_of_int (now' - now) / 1000" for now'
  proof -
    have "1 - tokens ?new \<le> real_of_int (now' - now) / 1000 * refillRate cfg"
      using wait rate by (simp add: pos_divide_le_eq)
    then have "1 \<le> tokens (refill cfg now' ?new)"
      using cfg(1) by (simp add: refill_def[of cfg now'] Let_def refill_lastUpdate maxTokens_def)
    then show ?thesis by (simp add: check_enabled[OF en] bucket_of_def Let_def)
  qed
  then show ?thesis
    by (simp add: chk)
qed

text \<open>
  In the arithmetic of the runtime that time can be too short by a rounding.  With one
  request per window of ten seconds, the call at 0 ms is admitted and the call at 5 ms
  is denied with \<open>retryAfter = 9.995\<close>; the call made 9995 ms after it, for which the
  elapsed time computed is that same number, finds the bucket at one token less
  \<open>2\<^sup>-\<^sup>5\<^sup>3\<close> and is denied again.  In exact arithmetic the same call is allowed.
\<close>

lemmas fp_defs = binary64_def quantum_def pow2_def exponent_def roundHalfEven_def ilog2.simps Let_def

lemma check64_retryAfter_short:
  "fst (fst (check64 slow_config 0 7 Map.empty))
   \<and> fst (check64 slow_config 5 7 (snd (check64 slow_config 0 7 Map.empty)))
       = (False, Some (binary64 (9995 / 1000)))
   \<and> binary64 (real_of_int (10000 - 5) / 1000) = binary64 (9995 / 1000)
   \<and> \<not> fst (fst (check64 slow_config 10000 7
             (snd (check64 slow_config 5 7 (snd (check64 slow_config 0 7 Map.empty))))))
   \<and> map_option tokens
         (snd (check64 slow_config 10000 7
             (snd (check64 slow_config 5 7 (snd (check64 slow_config 0 7 Map.empty))))) 7)
       = Some (9007199254740991 / 9007199254740992)
   \<and> fst (fst (check slow_config 10000 7
             (snd (check slow_config 5 7 (snd (check slow_config 0 7 Map.empty))))))"
proof -
  define R :: real where "R = 3602879701896397 / 36028797018963968"
  define E :: real where "E = 5764607523034235 / 1152921504606846976"
  define P :: real where "P = 1152921504606847 / 2305843009213693952"
  define A :: real where "A = 4501347827556811 / 4503599627370496"
  define D :: real where "D = 5626684784446013 / 562949953421312"
  define Q :: real where "Q = 9002695655113621 / 9007199254740992"
  define T :: real where "T = 9007199254740991 / 9007199254740992"
  have en: "RATE_LIMIT_ENABLED slow_config" and mx: "maxTokens slow_config = 1"
    by (simp_all add: slow_config_def example_config_def maxTokens_def)
  have z: "binary64 0 = 0" "binary64 1 = 1"
    by (simp_all add: fp_defs)
  have rate: "refillRate64 slow_config = R"
    by (simp add: R_def slow_config_def example_config_def refillRate64_def fp_defs)
  have e: "binary64 (1 / 200) = E" "binary64 (1999 / 200) = D" "binary64 (9995 / 1000) = D"
    by (simp_all add: E_def D_def fp_defs)
  have p: "binary64 (E * R) = P" "binary64 P = P"
    by (simp_all add: E_def R_def P_def fp_defs)
  have a: "binary64 (1 - P) = A" "binary64 (A / R) = D"
    by (simp_all add: P_def A_def R_def D_def fp_defs)
  have q: "binary64 (D * R) = Q" "binary64 (P + Q) = T"
    by (simp_all add: D_def R_def Q_def P_def T_def fp_defs)
  have lt: "\<not> 1 \<le> P" "\<not> 1 \<le> T" "P \<le> 1" "T \<le> 1"
    by (simp_all add: P_def T_def)
  have c0: "check64 slow_config 0 7 Map.empty = ((True, None), [7 \<mapsto> \<lparr>tokens = 0, lastUpdate = 0\<rparr>])"
    by (simp add: check64_def refill64_def bucket_of_def en mx z rate)
  have c5: "check64 slow_config 5 7 [7 \<mapsto> \<lparr>tokens = 0, lastUpdate = 0\<rparr>]
              = ((False, Some D), [7 \<mapsto> \<lparr>tokens = P, lastUpdate = 5\<rparr>])"
    by (simp add: check64_def refill64_def bucket_of_def en mx rate e p a lt min_def)
  have c9: "check64 slow_config 10000 7 [7 \<mapsto> \<lparr>tokens = P, lastUpdate = 5\<rparr>]
              = ((False, Some (binary64 (binary64 (1 - T) / R))), [7 \<mapsto> \<lparr>tokens = T, lastUpdate = 10000\<rparr>])"
    by (simp add: check64_def refill64_def bucket_of_def en mx rate e q lt min_def)
  have x: "fst (fst (check slow_config 10000 7
             (snd (check slow_config 5 7 (snd (check slow_config 0 7 Map.empty))))))"
    by (simp add: slow_config_def example_config_def check_def refill_def refillRate_def
          bucket_of_def maxTokens_def Let_def)
  show ?thesis
    using x by (simp add: c0 c5 c9 e T_def)
qed

text \<open>The burst of the example is admitted in the arithmetic of the runtime as well.\<close>

lemma check64_burst:
  "map (\<lambda>r. fst (fst r))
     [check64 example_config 0 7 Map.empty,
      check64 example_config 0 7 (snd (check64 example_config 0 7 Map.empty)),
      check64 example_config 4000 7
        (snd (check64 example_config 0 7 (snd (check64 example_config 0 7 Map.empty))))]
   = [True, True, True]"
proof -
  have en: "RATE_LIMIT_ENABLED example_config" and mx: "maxTokens example_config = 2"
    by (simp_all add: example_config_def maxTokens_def)
  have z: "binary64 0 = 0" "binary64 1 = 1" "binary64 2 = 2" "binary64 4 = 4"
    by (simp_all add: fp_defs)
  have rate: "refillRate64 example_config = 1 / 4"
    by (simp add: example_config_def refillRate64_def fp_defs)
  have c0: "check64 example_config 0 7 Map.empty = ((True, None), [7 \<mapsto> \<lparr>tokens = 1, lastUpdate = 0\<rparr>])"
    by (simp add: check64_def refill64_def bucket_of_def en mx z rate)
  have c1: "check64 example_config 0 7 [7 \<mapsto> \<lparr>tokens = 1, lastUpdate = 0\<rparr>]
              = ((True, None), [7 \<mapsto> \<lparr>tokens = 0, lastUpdate = 0\<rparr>])"
    by (simp add: check64_def refill64_def bucket_of_def en mx z rate)
  have c2: "fst (fst (check64 example_config 4000 7 [7 \<mapsto> \<lparr>tokens = 0, lastUpdate = 0\<rparr>]))"
    by (simp add: check64_def refill64_def bucket_of_def en mx z rate)
  show ?thesis
    by (simp add: c0 c1 c2)
qed



section \<open>Properties of path validation\<close>

lemma underTemp_iff: "underTemp r ts \<longleftrightarrow> (\<exists>t \<in> set ts. prefix t r)"
  by (induction ts) auto

lemma underAllowed_iff: "underAllowed cfg r as \<longleftrightarrow> (\<exists>a \<in> set as. inside (resolve cfg a) r)"
  by (induction as) (auto simp: inside_def Let_def)

text \<open>
  Claim C2 as stated does not hold: the loop over the temp roots tests
  \<^verbatim>\<open>resolved.startsWith(tempPath)\<close>, a plain string prefix, not containment.  With the
  temp root \<^verbatim>\<open>/tmp\<close> the path \<^verbatim>\<open>/tmp-evil/secret\<close> is allowed although it lies inside no
  root; with the temp root written \<^verbatim>\<open>/tmp/\<close> the path \<^verbatim>\<open>/tmp/x\<close> is allowed although it
  neither equals the root nor starts with the root followed by a separator.
\<close>

theorem isPathAllowed_temp_prefix_counterexample:
  "isPathAllowed (example_config\<lparr>TEMP_PATHS := [''/tmp'']\<rparr>) ''/tmp-evil/secret'' \<and>
   resolved (example_config\<lparr>TEMP_PATHS := [''/tmp'']\<rparr>) ''/tmp-evil/secret'' = ''/tmp-evil/secret'' \<and>
   \<not> inside ''/tmp'' ''/tmp-evil/secret'' \<and>
   \<not> inside (resolve example_config ''/home/claude/vault'') ''/tmp-evil/secret'' \<and>
   isPathAllowed example_config ''/tmp/x'' \<and>
   resolved example_config ''/tmp/x'' = ''/tmp/x'' \<and>
   \<not> inside ''/tmp/'' ''/tmp/x'' \<and>
   \<not> inside (resolve example_config ''/home/claude/vault'') ''/tmp/x''"
  by code_simp

text \<open>
  Claim C2, amended: for every path string, \<^verbatim>\<open>isPathAllowed(path)\<close> returns true if and
  only if the path, after home-expansion, normalization and symlink resolution (falling
  back to absolute resolution when \<^verbatim>\<open>realpathSync\<close> throws), has a designated temp root
  as a string prefix, or lies inside a configured allowed root (itself resolved), where
  containment means equality with the root or having the root followed by \<^verbatim>\<open>/\<close> as a
  prefix.  The witness runs it on paths whose \<^verbatim>\<open>..\<close> segments lead outside every root
  (denied) and back inside one (allowed).
\<close>

theorem isPathAllowed_iff:
  "isPathAllowed cfg path \<longleftrightarrow>
     (\<exists>t \<in> set (TEMP_PATHS cfg). prefix t (resolved cfg path)) \<or>
     (\<exists>a \<in> set (ALLOWED_PATHS cfg). inside (resolve cfg a) (resolved cfg path))"
  by (simp add: isPathAllowed_def Let_def underTemp_iff underAllowed_iff)

theorem isPathAllowed_iff_witness:
  "\<not> isPathAllowed example_config ''/home/claude/vault/../.ssh/id_rsa'' \<and>
   isPathAllowed example_config ''/etc/../home/claude/vault/notes/b.md'' \<and>
   isPathAllowed example_config ''~/vault/b.md'' \<and>
   isPathAllowed example_config ''/tmp/voice_1.ogg''"
proof -
  have r1: "resolved example_config ''/home/claude/vault/../.ssh/id_rsa'' = ''/home/claude/.ssh/id_rsa''"
    by code_simp
  have r2: "resolved example_config ''/etc/../home/claude/vault/notes/b.md'' = ''/home/claude/vault/notes/b.md''"
    by code_simp
  have r3: "resolved example_config ''~/vault/b.md'' = ''/home/claude/vault/b.md''"
    by code_simp
  have r4: "resolved example_config ''/tmp/voice_1.ogg'' = ''/tmp/voice_1.ogg''"
    by code_simp
  have a: "resolve example_config ''/home/claude/vault'' = ''/home/claude/vault''"
    by code_simp
  have c: "TEMP_PATHS example_config = [''/tmp/'']" "ALLOWED_PATHS example_config = [''/home/claude/vault'']"
    by (simp_all add: example_config_def)
  show ?thesis
    using isPathAllowed_iff [of example_config "''/home/claude/vault/../.ssh/id_rsa''"]
      isPathAllowed_iff [of example_config "''/etc/../home/claude/vault/notes/b.md''"]
      isPathAllowed_iff [of example_config "''~/vault/b.md''"]
      isPathAllowed_iff [of example_config "''/tmp/voice_1.ogg''"]
    by (simp add: r1 r2 r3 r4 a c inside_def)
qed

section \<open>Properties of command safety\<close>

lemma rmArgs_rejects:
  "a \<in> set args \<Longrightarrow> \<not> prefix ''-'' a \<Longrightarrow> 1 < length a \<Longrightarrow> \<not> isPathAllowed cfg a \<Longrightarrow>
   rmArgs cfg args \<noteq> None"
  by (induction args) auto

lemma rmArgs_Some:
  "rmArgs cfg args = Some a \<Longrightarrow>
   a \<in> set args \<and> \<not> prefix ''-'' a \<and> 1 < length a \<and> \<not> isPathAllowed cfg a"
  by (induction args) (auto split: if_splits)

text \<open>
  What the check does achieve: in a command that contains \<^verbatim>\<open>rm\<close> and a space, every
  argument of two or more characters that is not a flag and that \<^verbatim>\<open>isPathAllowed\<close>
  rejects makes the command unsafe; and the \<^verbatim>\<open>catch\<close> clause answers unsafe.
\<close>

lemma checkCommandSafety_rejects_target:
  assumes "includes_str (toLowerCase command) ''rm ''"
    and "rmMatch command = Some g" and "a \<in> set (splitWs g)"
    and "\<not> prefix ''-'' a" and "1 < length a" and "\<not> isPathAllowed cfg a"
  shows "\<not> fst (checkCommandSafety cfg command)"
proof -
  from rmArgs_rejects[OF assms(3-6)] obtain b where "rmArgs cfg (splitWs g) = Some b" by auto
  then show ?thesis using assms(1,2)
    by (auto simp: checkCommandSafety_def Let_def rmBody_def rmCatch_def split: option.splits)
qed

lemma rmCatch_fails_closed:
  "rmCatch (Inl err) = Some (False, ''Could not parse rm command for safety check'')"
  by (simp add: rmCatch_def)

text \<open>
  Claim C3: the source means to skip flags only (its comment reads \<^verbatim>\<open>// Skip flags\<close>) and to
  check every other argument, but the guard \<^verbatim>\<open>arg.startsWith("-") || arg.length <= 1\<close> also
  skips every argument of one character.  The command \<^verbatim>\<open>rm -r /\<close> contains no blocked
  pattern of the example configuration, is recognized (it contains \<^verbatim>\<open>rm\<close> and a space),
  its argument list is \<^verbatim>\<open>-r\<close>, \<^verbatim>\<open>/\<close>, the argument \<^verbatim>\<open>/\<close> is not a flag and is rejected by
  \<^verbatim>\<open>isPathAllowed\<close>, and \<^verbatim>\<open>checkCommandSafety\<close> returns safe.
\<close>

theorem checkCommandSafety_one_char_target:
  "includes_str (toLowerCase ''rm -r /'') ''rm '' \<and>
   rmMatch ''rm -r /'' = Some ''-r /'' \<and>
   splitWs ''-r /'' = [''-r'', ''/''] \<and>
   \<not> prefix ''-'' ''/'' \<and>
   \<not> isPathAllowed example_config ''/'' \<and>
   checkCommandSafety example_config ''rm -r /'' = (True, [])"
  by code_simp

section \<open>Properties of session resumption\<close>



section \<open>Properties of the media group buffer\<close>

lemma processGroup_sync_absent:
  "pendingGroups st gid = None \<Longrightarrow> processGroup_sync gid st = (None, st)"
  by (simp add: processGroup_sync_def)

lemma processGroup_absent:
  "pendingGroups st gid = None \<Longrightarrow> processGroup config cb gid st = (True, st)"
  by (simp add: processGroup_def processGroup_sync_absent)

lemma processGroup_sync_pending:
  "pendingGroups (snd (processGroup_sync gid st)) = (pendingGroups st)(gid := None)"
  by (auto simp: processGroup_sync_def Let_def split: option.splits)

lemma processGroup_sync_frame:
  "timers (snd (processGroup_sync gid st)) = timers st"
  "batches (snd (processGroup_sync gid st)) = batches st"
  "rate (snd (processGroup_sync gid st)) = rate st"
  by (auto simp: processGroup_sync_def Let_def split: option.splits)

lemma processGroup_rest_pending:
  "pendingGroups (snd (processGroup_rest config cb gb st)) = pendingGroups st"
  by (simp add: processGroup_rest_def Let_def)

lemma processGroup_rest_batches:
  "batches (snd (processGroup_rest config cb gb st)) = batches st @ [snd gb]"
  by (simp add: processGroup_rest_def Let_def)

lemma processGroup_unfold:
  "processGroup config cb gid st =
     (case fst (processGroup_sync gid st) of
        None \<Rightarrow> (True, snd (processGroup_sync gid st))
      | Some gb \<Rightarrow> processGroup_rest config cb gb (snd (processGroup_sync gid st)))"
  by (simp add: processGroup_def Let_def)

lemma processGroup_pending:
  "pendingGroups (snd (processGroup config cb gid st)) = (pendingGroups st)(gid := None)"
proof (cases "fst (processGroup_sync gid st)")
  case None
  then have "processGroup config cb gid st = (True, snd (processGroup_sync gid st))"
    by (simp add: processGroup_unfold)
  then show ?thesis by (simp add: processGroup_sync_pending)
next
  case (Some gb)
  then have "processGroup config cb gid st = processGroup_rest config cb gb (snd (processGroup_sync gid st))"
    by (simp add: processGroup_unfold)
  then show ?thesis by (simp add: processGroup_rest_pending processGroup_sync_pending)
qed

lemma processGroup_batches:
  "batches (snd (processGroup config cb gid st)) = batches st @ handed gid st"
proof (cases "fst (processGroup_sync gid st)")
  case None
  then have "processGroup config cb gid st = (True, snd (processGroup_sync gid st))"
    by (simp add: processGroup_unfold)
  then show ?thesis using None by (simp add: processGroup_sync_frame handed_def)
next
  case (Some gb)
  then have "processGroup config cb gid st = processGroup_rest config cb gb (snd (processGroup_sync gid st))"
    by (simp add: processGroup_unfold)
  then show ?thesis using Some by (simp add: processGroup_rest_batches processGroup_sync_frame handed_def)
qed

lemma handed_cases:
  "handed gid st =
     (case pendingGroups st gid of
        None \<Rightarrow> []
      | Some g \<Rightarrow>
          if falsy_id (from_id (ctx g)) \<or> falsy_id (chat_id (ctx g)) then []
          else [\<lparr>batch_group = gid, batch_items = items g, batch_caption = caption g,
                 batch_userId = (case from_id (ctx g) of Some u \<Rightarrow> u | None \<Rightarrow> 0),
                 batch_username = (if truthy (from_username (ctx g)) then show_opt (from_username (ctx g))
                                   else ''unknown''),
                 batch_chatId = (case chat_id (ctx g) of Some c \<Rightarrow> c | None \<Rightarrow> 0)\<rparr>])"
  by (simp add: handed_def processGroup_sync_def Let_def split: option.splits)

lemma addToGroup_batches:
  "batches (snd (addToGroup cfg config now gid item c u un st)) = batches st"
  by (simp add: addToGroup_def Let_def setTimeout_def clearTimeout_def split: option.splits)

lemma addToGroup_pending_other:
  "gid' \<noteq> gid \<Longrightarrow>
   pendingGroups (snd (addToGroup cfg config now gid' item c u un st)) gid = pendingGroups st gid"
  by (simp add: addToGroup_def Let_def setTimeout_def clearTimeout_def split: option.splits)

lemma addToGroup_buffered:
  "buffered gid (snd (addToGroup cfg config now gid item c u un st)) =
     buffered gid st @ (if fst (addToGroup cfg config now gid item c u un st) = Some True then [item] else [])"
  by (auto simp: buffered_def addToGroup_def Let_def setTimeout_def clearTimeout_def split: option.splits)

lemma addToGroup_senders:
  "senders_known st \<Longrightarrow> \<not> falsy_id (from_id c) \<Longrightarrow> \<not> falsy_id (chat_id c) \<Longrightarrow>
   senders_known (snd (addToGroup cfg config now gid item c u un st))"
  unfolding senders_known_def
  by (auto simp: addToGroup_def Let_def setTimeout_def clearTimeout_def split: option.splits if_splits)


lemma clearTimeout_frame:
  "pendingGroups (clearTimeout tid st) = pendingGroups st"
  "batches (clearTimeout tid st) = batches st"
  by (simp_all add: clearTimeout_def)

lemma handed_group: "b \<in> set (handed gid st) \<Longrightarrow> batch_group b = gid \<and> batch_items b = buffered gid st"
  by (auto simp: handed_cases buffered_def split: option.splits if_splits)

lemma handed_length: "length (handed gid st) \<le> 1"
  by (simp add: handed_def split: option.splits)

lemma handed_absent: "pendingGroups st gid = None \<Longrightarrow> handed gid st = []"
  by (simp add: handed_cases)

lemma handed_known:
  "senders_known st \<Longrightarrow> concat (map batch_items (handed gid st)) = buffered gid st"
  by (auto simp: handed_cases buffered_def senders_known_def split: option.splits)

lemma handed_clear: "handed gid (clearTimeout tid st) = handed gid st"
  by (simp add: handed_cases clearTimeout_frame)

lemma buffered_clear: "buffered gid (clearTimeout tid st) = buffered gid st"
  by (simp add: buffered_def clearTimeout_frame)

lemma filter_handed_same: "filter (\<lambda>b. batch_group b = gid) (handed gid st) = handed gid st"
  by (rule filter_True) (simp add: handed_group)

lemma filter_handed_other: "gid' \<noteq> gid \<Longrightarrow> filter (\<lambda>b. batch_group b = gid) (handed gid' st) = []"
  by (auto simp: filter_empty_conv dest: handed_group)

lemma step_items:
  assumes k: "senders_known st" and e: "sender_known e"
  shows "delivered gid (buffer_step cfg config cb e st) @ buffered gid (buffer_step cfg config cb e st)
           = delivered gid st @ buffered gid st @ accepted cfg config cb gid [e] st
         \<and> senders_known (buffer_step cfg config cb e st)"
proof (cases e)
  case (Add now gid' item c u un)
  have s: "senders_known (buffer_step cfg config cb e st)"
    using k e Add by (simp add: addToGroup_senders)
  show ?thesis
  proof (cases "gid' = gid")
    case True
    then show ?thesis using s Add
      by (simp add: delivered_def addToGroup_batches addToGroup_buffered)
  next
    case False
    then show ?thesis using s Add
      by (simp add: delivered_def buffered_def addToGroup_batches addToGroup_pending_other)
  qed
next
  case (Fire tid)
  show ?thesis
  proof (cases "timers st tid")
    case None
    then show ?thesis using Fire k by simp
  next
    case (Some gid')
    let ?st0 = "clearTimeout tid st"
    have st': "buffer_step cfg config cb e st = snd (processGroup config cb gid' ?st0)"
      using Fire Some by simp
    have k0: "senders_known ?st0" using k by (simp add: senders_known_def clearTimeout_frame)
    have s: "senders_known (buffer_step cfg config cb e st)"
      using k0 unfolding st' senders_known_def by (simp add: processGroup_pending)
    show ?thesis
    proof (cases "gid' = gid")
      case True
      have "buffered gid (snd (processGroup config cb gid ?st0)) = []"
        by (simp add: buffered_def processGroup_pending)
      moreover have "delivered gid (snd (processGroup config cb gid ?st0))
                       = delivered gid st @ buffered gid st"
        using handed_known[OF k0, of gid]
        by (simp add: delivered_def processGroup_batches filter_handed_same clearTimeout_frame
            buffered_clear)
      ultimately show ?thesis using s st' True Fire by simp
    next
      case False
      have "buffered gid (snd (processGroup config cb gid' ?st0)) = buffered gid st"
        using False by (simp add: buffered_def processGroup_pending clearTimeout_frame)
      moreover have "delivered gid (snd (processGroup config cb gid' ?st0)) = delivered gid st"
        using False by (simp add: delivered_def processGroup_batches filter_handed_other clearTimeout_frame)
      ultimately show ?thesis using s st' Fire by simp
    qed
  qed
qed

lemma run_items:
  "senders_known st \<Longrightarrow> \<forall>e \<in> set es. sender_known e \<Longrightarrow>
   delivered gid (buffer_run cfg config cb es st) @ buffered gid (buffer_run cfg config cb es st)
     = delivered gid st @ buffered gid st @ accepted cfg config cb gid es st"
proof (induction es arbitrary: st)
  case Nil
  then show ?case by simp
next
  case (Cons e es)
  from step_items[OF Cons.prems(1), of e gid cfg config cb] Cons.prems(2)
  have st: "delivered gid (buffer_step cfg config cb e st) @ buffered gid (buffer_step cfg config cb e st)
           = delivered gid st @ buffered gid st @ accepted cfg config cb gid [e] st"
    and k: "senders_known (buffer_step cfg config cb e st)" by simp_all
  from Cons.IH[OF k] Cons.prems(2)
  have "delivered gid (buffer_run cfg config cb (e # es) st) @ buffered gid (buffer_run cfg config cb (e # es) st)
          = (delivered gid (buffer_step cfg config cb e st) @ buffered gid (buffer_step cfg config cb e st))
            @ accepted cfg config cb gid es (buffer_step cfg config cb e st)"
    by simp
  also have "\<dots> = delivered gid st @ buffered gid st @ accepted cfg config cb gid (e # es) st"
    unfolding st by simp
  finally show ?case .
qed

lemma addToGroup_live:
  "live gid (snd (addToGroup cfg config now gid' item c u un st))
     \<le> live gid st +
        (if gid' = gid \<and> pendingGroups st gid = None
            \<and> fst (addToGroup cfg config now gid' item c u un st) = Some True then 1 else 0)"
  by (auto simp: live_def addToGroup_def Let_def setTimeout_def clearTimeout_def split: option.splits)

lemma step_count:
  "batches_for gid (buffer_step cfg config cb e st) + live gid (buffer_step cfg config cb e st)
     \<le> batches_for gid st + live gid st + created cfg config cb gid [e] st"
proof (cases e)
  case (Add now gid' item c u un)
  then show ?thesis
    using addToGroup_live[of gid cfg config now gid' item c u un st]
    by (simp add: batches_for_def addToGroup_batches)
next
  case (Fire tid)
  show ?thesis
  proof (cases "timers st tid")
    case None
    then show ?thesis using Fire by simp
  next
    case (Some gid')
    let ?st0 = "clearTimeout tid st"
    have st': "buffer_step cfg config cb e st = snd (processGroup config cb gid' ?st0)"
      using Fire Some by simp
    show ?thesis
    proof (cases "gid' = gid")
      case True
      have "live gid (snd (processGroup config cb gid ?st0)) = 0"
        by (simp add: live_def processGroup_pending)
      moreover have "batches_for gid (snd (processGroup config cb gid ?st0))
                       = batches_for gid st + length (handed gid st)"
        by (simp add: batches_for_def processGroup_batches filter_handed_same clearTimeout_frame handed_clear)
      moreover have "length (handed gid st) \<le> live gid st"
        using handed_length[of gid st] handed_absent[of st gid] by (auto simp: live_def)
      ultimately show ?thesis using st' True by simp
    next
      case False
      have "live gid (snd (processGroup config cb gid' ?st0)) = live gid st"
        using False by (simp add: live_def processGroup_pending clearTimeout_frame)
      moreover have "batches_for gid (snd (processGroup config cb gid' ?st0)) = batches_for gid st"
        using False by (simp add: batches_for_def processGroup_batches filter_handed_other clearTimeout_frame)
      ultimately show ?thesis using st' by simp
    qed
  qed
qed

lemma run_count:
  "batches_for gid (buffer_run cfg config cb es st) + live gid (buffer_run cfg config cb es st)
     \<le> batches_for gid st + live gid st + created cfg config cb gid es st"
proof (induction es arbitrary: st)
  case Nil
  then show ?case by simp
next
  case (Cons e es)
  from Cons.IH[of "buffer_step cfg config cb e st"] step_count[of gid cfg config cb e st]
  show ?case by simp
qed

text \<open>
  Runs in which the calls of \<^verbatim>\<open>addToGroup\<close> do not overlap.  \<^verbatim>\<open>processGroup\<close> has taken the
  group out of the live map when it reaches its first \<^verbatim>\<open>await\<close>, so that a call for the
  same id made while it waits, or after it, returns at once and changes nothing; a call
  hands the callback at most one batch, which is of this group and holds its items;
  over every sequence of \<^verbatim>\<open>addToGroup\<close> calls and timers, of any groups, the callback is
  called for a group at most as often as the group was created; and the items handed
  over for the group so far, followed by the items it still holds, are exactly the
  items accepted under its id, in the order of their arrival.  (Every message has a
  sender and a chat.)
\<close>

lemma buffer_once_in_order:
  "pendingGroups (snd (processGroup_sync gid st)) gid = None
   \<and> processGroup config cb gid (snd (processGroup_sync gid st)) = (True, snd (processGroup_sync gid st))
   \<and> processGroup config cb gid (snd (processGroup config cb gid st))
        = (True, snd (processGroup config cb gid st))
   \<and> batches (snd (processGroup config cb gid st)) = batches st @ handed gid st
   \<and> length (handed gid st) \<le> 1
   \<and> (\<forall>b \<in> set (handed gid st). batch_group b = gid \<and> batch_items b = buffered gid st)
   \<and> batches_for gid (buffer_run cfg config cb es st) + live gid (buffer_run cfg config cb es st)
        \<le> batches_for gid st + live gid st + created cfg config cb gid es st
   \<and> (senders_known st \<and> (\<forall>e \<in> set es. sender_known e) \<longrightarrow>
        delivered gid (buffer_run cfg config cb es st) @ buffered gid (buffer_run cfg config cb es st)
          = delivered gid st @ buffered gid st @ accepted cfg config cb gid es st)"
proof -
  have 1: "pendingGroups (snd (processGroup_sync gid st)) gid = None"
    by (simp add: processGroup_sync_pending)
  have 2: "pendingGroups (snd (processGroup config cb gid st)) gid = None"
    by (simp add: processGroup_pending)
  show ?thesis
    using processGroup_absent[OF 1] processGroup_absent[OF 2] 1 handed_length[of gid st]
      handed_group[of _ gid st] run_count[of gid cfg config cb es st]
      run_items[of st es gid cfg config cb]
    by (simp add: processGroup_batches)
qed

lemma buffer_once_in_order_example:
  "map batch_group (batches (buffer_run example_config photos quiet album emptyBuffer)) = [''g1'', ''g2'']
   \<and> map batch_items (batches (buffer_run example_config photos quiet album emptyBuffer)) = [[1, 2, 3], [9]]
   \<and> map batch_caption (batches (buffer_run example_config photos quiet album emptyBuffer)) = [Some ''trip'', None]
   \<and> accepted example_config photos quiet ''g1'' album emptyBuffer = [1, 2, 3]
   \<and> created example_config photos quiet ''g1'' album emptyBuffer = 1
   \<and> delivered ''g1'' (buffer_run example_config photos quiet album emptyBuffer)
       @ buffered ''g1'' (buffer_run example_config photos quiet album emptyBuffer) = [1, 2, 3]
   \<and> batches_for ''g1'' (buffer_run example_config photos quiet album emptyBuffer) \<le> 1"
proof -
  have k: "senders_known (emptyBuffer :: nat media_state)"
    by (simp add: senders_known_def emptyBuffer_def)
  have e: "\<forall>e \<in> set album. sender_known e"
    by (simp add: album_def sender_def falsy_id_def)
  have a: "accepted example_config photos quiet ''g1'' album emptyBuffer = [1, 2, 3]"
    by code_simp
  have c: "created example_config photos quiet ''g1'' album emptyBuffer = 1"
    by code_simp
  have b: "map batch_group (batches (buffer_run example_config photos quiet album emptyBuffer)) = [''g1'', ''g2'']"
    "map batch_items (batches (buffer_run example_config photos quiet album emptyBuffer)) = [[1, 2, 3], [9]]"
    "map batch_caption (batches (buffer_run example_config photos quiet album emptyBuffer)) = [Some ''trip'', None]"
    by code_simp+
  have z: "delivered ''g1'' (emptyBuffer :: nat media_state) = []"
    "buffered ''g1'' (emptyBuffer :: nat media_state) = []"
    "batches_for ''g1'' (emptyBuffer :: nat media_state) = 0"
    "live ''g1'' (emptyBuffer :: nat media_state) = 0"
    by (simp_all add: delivered_def buffered_def batches_for_def live_def emptyBuffer_def)
  show ?thesis
    using buffer_once_in_order [of "''g1''" emptyBuffer photos quiet example_config album] k e
    by (simp add: a b c z)
qed

text \<open>
  The call of \<^verbatim>\<open>addToGroup\<close> without overlap is its two halves, one after the other, and a
  call of \<^verbatim>\<open>processGroup\<close> that finds the group applies the callback to its batch, once,
  between the edit and the deletion of the status message.
\<close>

lemma addToGroup_halves:
  "addToGroup cfg config now gid item c userId username st =
     (case fst (addToGroup_begin cfg config now gid item c userId username st) of
        Returned res \<Rightarrow> (res, snd (addToGroup_begin cfg config now gid item c userId username st))
      | Awaiting m \<Rightarrow>
          addToGroup_resume gid item c m (snd (addToGroup_begin cfg config now gid item c userId username st)))"
  by (simp add: addToGroup_def addToGroup_begin_def addToGroup_resume_def Let_def
           split: option.splits)

lemma processGroup_calls_back:
  "fst (processGroup_sync gid st) = Some (g, b) \<Longrightarrow>
   chat (snd (processGroup config cb gid st)) =
     (let r = cb b (snd (editMessageText (statusMsg g) Plain
                      (emoji config @ '' Processing '' @ show_nat (length (items g)) @ '' ''
                         @ itemLabelPlural config @ ''...'') (chat st)))
      in if fst r then snd (deleteMessage (statusMsg g) (snd r)) else snd r)"
  by (auto simp: processGroup_def processGroup_rest_def processGroup_sync_def Let_def
           split: option.splits if_splits)

text \<open>
  Claim C6 fails on the code when two handlers overlap: the callback is to be given all
  the items accumulated for a group, in the order of their arrival.  \<^verbatim>\<open>addToGroup\<close> awaits
  the reply of the status message between \<^verbatim>\<open>pendingGroups.has(mediaGroupId)\<close> and
  \<^verbatim>\<open>pendingGroups.set(mediaGroupId, ...)\<close>.  When the handlers of the first two photos of an
  album both enter \<^verbatim>\<open>addToGroup\<close> before either reply has resolved, both find no group,
  both are charged by the rate limiter and both create the group: the second
  \<^verbatim>\<open>set\<close> replaces the entry of the first.  Both calls return true; the callback is
  given the second photo only, when the timer of the replaced entry comes due; the first
  photo is never handed over and the first status message stays in the chat.  The same
  two photos without overlap are handed over together.
\<close>

theorem addToGroup_overlap_loses_item:
  "results (handlers_run example_config photos announce overlapping noHandlers)
     = [(1, Some True), (2, Some True)]
   \<and> map batch_items (batches (buffer (handlers_run example_config photos announce overlapping noHandlers)))
     = [[2]]
   \<and> buffered ''g1'' (buffer (handlers_run example_config photos announce overlapping noHandlers)) = []
   \<and> map unit_text (shown (chat (buffer (handlers_run example_config photos announce overlapping noHandlers))))
     = [''[photo] Receiving photos...'', ''got 1'']
   \<and> results (handlers_run example_config photos announce in_turn noHandlers)
     = [(1, Some True), (2, Some True)]
   \<and> map batch_items (batches (buffer (handlers_run example_config photos announce in_turn noHandlers)))
     = [[1, 2]]
   \<and> map unit_text (shown (chat (buffer (handlers_run example_config photos announce in_turn noHandlers))))
     = [''got 2'']"
proof -
  have n: "show_nat (Suc 0) = ''1''" "show_nat (Suc (Suc 0)) = ''2''" "show_nat 1 = ''1''" "show_nat 2 = ''2''"
    by code_simp+
  show ?thesis
  by (simp add: n overlapping_def in_turn_def noHandlers_def emptyBuffer_def emptyChat_def announce_def
        photos_def sender_def example_config_def addToGroup_begin_def addToGroup_resume_def
        check_def bucket_of_def refill_def maxTokens_def refillRate_def reply_def setTimeout_def
        clearTimeout_def processGroup_def processGroup_sync_def processGroup_rest_def
        editMessageText_def deleteMessage_def falsy_id_def truthy_def show_opt_def buffered_def
        unit_text_def Let_def)
qed

section \<open>Properties of the streaming callback\<close>

lemma reply_frame:
  "api_ok (snd (reply m x t)) = api_ok t"
  "api_calls (snd (reply m x t)) = Suc (api_calls t)"
  by (simp_all add: reply_def)

lemma reply_accepted:
  "api_ok t (api_calls t) \<Longrightarrow> fst (reply m x t) = Some (next_id t)"
  "api_ok t (api_calls t) \<Longrightarrow> shown (snd (reply m x t)) = shown t @ [(next_id t, m, x)]"
  "api_ok t (api_calls t) \<Longrightarrow> next_id (snd (reply m x t)) = Suc (next_id t)"
  by (simp_all add: reply_def)

lemma reply_refused:
  "\<not> api_ok t (api_calls t) \<Longrightarrow> fst (reply m x t) = None"
  "\<not> api_ok t (api_calls t) \<Longrightarrow> shown (snd (reply m x t)) = shown t"
  "\<not> api_ok t (api_calls t) \<Longrightarrow> next_id (snd (reply m x t)) = next_id t"
  by (simp_all add: reply_def)

lemma delivers_reply: "delivers t \<Longrightarrow> delivers (snd (reply m x t))"
  by (simp add: delivers_def reply_frame)

lemma delivers_next: "delivers t \<Longrightarrow> \<not> api_ok t (api_calls t) \<Longrightarrow> api_ok t (Suc (api_calls t))"
  by (auto simp: delivers_def)

lemma sendChunks_delivers:
  assumes cap: "0 < cap"
  shows "delivers t \<Longrightarrow>
         \<exists>t' units. sendChunks cap s i t = Some (True, t') \<and>
            shown t' = shown t @ units \<and>
            concat (map unit_text units) = drop i s \<and>
            (\<forall>u \<in> set units. 0 < length (unit_text u) \<and> length (unit_text u) \<le> cap \<and> next_id t \<le> fst u)"
proof (induction "length s - i" arbitrary: i t rule: less_induct)
  case less
  show ?case
  proof (cases "i < length s")
    case False
    then show ?thesis by (subst sendChunks.simps) simp
  next
    case True
    let ?chunk = "take cap (drop i s)"
    have ne: "0 < length ?chunk" "length ?chunk \<le> cap" using True cap by simp_all
    have dec: "length s - (i + cap) < length s - i" using True cap by simp
    have cat: "?chunk @ drop (i + cap) s = drop i s"
      by (metis add.commute append_take_drop_id drop_drop)
    show ?thesis
    proof (cases "api_ok t (api_calls t)")
      case ok: True
      let ?t1 = "snd (reply Html ?chunk t)"
      from less.hyps[OF dec, of ?t1] delivers_reply[OF less.prems]
      obtain t' units where r: "sendChunks cap s (i + cap) ?t1 = Some (True, t')"
        "shown t' = shown ?t1 @ units" "concat (map unit_text units) = drop (i + cap) s"
        "\<forall>u \<in> set units. 0 < length (unit_text u) \<and> length (unit_text u) \<le> cap \<and> next_id ?t1 \<le> fst u"
        by blast
      have "sendChunks cap s i t = Some (True, t')"
        using True ok r(1) by (subst sendChunks.simps) (simp add: reply_accepted)
      moreover have "shown t' = shown t @ ((next_id t, Html, ?chunk) # units)"
        using r(2) ok by (simp add: reply_accepted)
      moreover have "concat (map unit_text ((next_id t, Html, ?chunk) # units)) = drop i s"
        using r(3) cat by (simp add: unit_text_def)
      moreover have "\<forall>u \<in> set ((next_id t, Html, ?chunk) # units).
          0 < length (unit_text u) \<and> length (unit_text u) \<le> cap \<and> next_id t \<le> fst u"
        using r(4) ne ok by (auto simp: unit_text_def reply_accepted)
      ultimately show ?thesis by blast
    next
      case no: False
      let ?t1 = "snd (reply Html ?chunk t)"
      let ?t2 = "snd (reply Plain ?chunk ?t1)"
      have ok2: "api_ok ?t1 (api_calls ?t1)"
        using delivers_next[OF less.prems no] by (simp add: reply_frame)
      have d2: "delivers ?t2" using less.prems by (simp add: delivers_reply)
      from less.hyps[OF dec, of ?t2] d2
      obtain t' units where r: "sendChunks cap s (i + cap) ?t2 = Some (True, t')"
        "shown t' = shown ?t2 @ units" "concat (map unit_text units) = drop (i + cap) s"
        "\<forall>u \<in> set units. 0 < length (unit_text u) \<and> length (unit_text u) \<le> cap \<and> next_id ?t2 \<le> fst u"
        by blast
      have n1: "next_id ?t1 = next_id t" "shown ?t1 = shown t" "fst (reply Html ?chunk t) = None"
        using no by (simp_all add: reply_refused)
      have "sendChunks cap s i t = Some (True, t')"
        using True r(1) n1(3) reply_accepted(1)[OF ok2, of Plain ?chunk]
        by (subst sendChunks.simps) simp
      moreover have "shown t' = shown t @ ((next_id t, Plain, ?chunk) # units)"
        using r(2) n1 reply_accepted(2)[OF ok2, of Plain ?chunk] by simp
      moreover have "concat (map unit_text ((next_id t, Plain, ?chunk) # units)) = drop i s"
        using r(3) cat by (simp add: unit_text_def)
      moreover have "\<forall>u \<in> set ((next_id t, Plain, ?chunk) # units).
          0 < length (unit_text u) \<and> length (unit_text u) \<le> cap \<and> next_id t \<le> fst u"
        using r(4) ne n1 reply_accepted(3)[OF ok2, of Plain ?chunk] by (auto simp: unit_text_def)
      ultimately show ?thesis by blast
    qed
  qed
qed


lemma deleteMessage_frame:
  "api_ok (snd (deleteMessage m t)) = api_ok t"
  "api_calls (snd (deleteMessage m t)) = Suc (api_calls t)"
  "next_id (snd (deleteMessage m t)) = next_id t"
  by (simp_all add: deleteMessage_def)

lemma deleteMessage_gone:
  "api_ok t (api_calls t) \<Longrightarrow> m \<notin> fst ` set (shown (snd (deleteMessage m t)))"
  by (auto simp: deleteMessage_def)

lemma delivers_delete: "delivers t \<Longrightarrow> delivers (snd (deleteMessage m t))"
  by (simp add: delivers_def deleteMessage_frame)

lemma editMessageText_shows:
  "api_ok t (api_calls t) \<Longrightarrow> m \<in> fst ` set (shown t) \<Longrightarrow>
   (m, mode, x) \<in> set (shown (snd (editMessageText m mode x t))) \<and>
   map fst (shown (snd (editMessageText m mode x t))) = map fst (shown t) \<and>
   (\<forall>u \<in> set (shown (snd (editMessageText m mode x t))). fst u = m \<longrightarrow> u = (m, mode, x))"
  by (auto simp: editMessageText_def image_iff) blast

lemma two_units:
  assumes "concat (map unit_text units) = s" "\<forall>u \<in> set units. length (unit_text u) \<le> cap"
    and "cap < length s"
  shows "2 \<le> length units"
proof (rule ccontr)
  assume "\<not> 2 \<le> length units"
  then consider "units = []" | u where "units = [u]"
    by (cases units; cases "tl units") auto
  then show False
  proof cases
    case 1
    then show ?thesis using assms by simp
  next
    case 2
    then show ?thesis using assms by auto
  qed
qed

text \<open>
  The final render of a segment that has a display unit, for a content that is not
  empty and whose render differs from the last one sent.  The edit is made whatever the
  clock reading and the time of the last edit are, and an accepted edit puts the full
  content in the unit.  For a content above the capacity of a unit, when the piece
  length is positive and the transport does not refuse two calls in a row, the call
  returns, the chat shows what it showed after the deletion followed by new units, the
  deleted unit is gone when the transport accepted the deletion, the texts of the new
  units concatenate to the rendered content, each is non-empty and at most
  \<^verbatim>\<open>TELEGRAM_SAFE_LIMIT\<close> long, and there are at least two of them when that limit is not
  above the capacity of a unit.
\<close>

lemma segment_end_final_render:
  assumes seg: "textMessages state segmentId = Some msg"
    and content: "content \<noteq> []"
    and changed: "lastContent state segmentId \<noteq> Some (convertMarkdownToHtml cfg content)"
  shows "(length (convertMarkdownToHtml cfg content) \<le> TELEGRAM_MESSAGE_LIMIT cfg \<longrightarrow>
            statusCallback cfg now (SegmentEnd content segmentId) (state, t)
              = Some (state, snd (editMessageText msg Html (convertMarkdownToHtml cfg content) t)) \<and>
            (api_ok t (api_calls t) \<and> msg \<in> fst ` set (shown t) \<longrightarrow>
               (msg, Html, convertMarkdownToHtml cfg content)
                  \<in> set (shown (snd (editMessageText msg Html (convertMarkdownToHtml cfg content) t))) \<and>
               map fst (shown (snd (editMessageText msg Html (convertMarkdownToHtml cfg content) t)))
                  = map fst (shown t)))
       \<and> (TELEGRAM_MESSAGE_LIMIT cfg < length (convertMarkdownToHtml cfg content) \<and>
            0 < TELEGRAM_SAFE_LIMIT cfg \<and> delivers t \<longrightarrow>
            (\<exists>t' units.
               statusCallback cfg now (SegmentEnd content segmentId) (state, t) = Some (state, t') \<and>
               shown t' = shown (snd (deleteMessage msg t)) @ units \<and>
               (api_ok t (api_calls t) \<longrightarrow> msg \<notin> fst ` set (shown (snd (deleteMessage msg t)))) \<and>
               concat (map unit_text units) = convertMarkdownToHtml cfg content \<and>
               (\<forall>u \<in> set units. 0 < length (unit_text u) \<and>
                   length (unit_text u) \<le> TELEGRAM_SAFE_LIMIT cfg \<and> next_id t \<le> fst u) \<and>
               (TELEGRAM_SAFE_LIMIT cfg \<le> TELEGRAM_MESSAGE_LIMIT cfg \<longrightarrow> 2 \<le> length units)))"
proof (intro conjI impI)
  assume fits: "length (convertMarkdownToHtml cfg content) \<le> TELEGRAM_MESSAGE_LIMIT cfg"
  show "statusCallback cfg now (SegmentEnd content segmentId) (state, t)
          = Some (state, snd (editMessageText msg Html (convertMarkdownToHtml cfg content) t))"
    using seg content changed fits by (simp add: statusCallback_def Let_def)
next
  assume "api_ok t (api_calls t) \<and> msg \<in> fst ` set (shown t)"
  then show "(msg, Html, convertMarkdownToHtml cfg content)
                  \<in> set (shown (snd (editMessageText msg Html (convertMarkdownToHtml cfg content) t)))"
    and "map fst (shown (snd (editMessageText msg Html (convertMarkdownToHtml cfg content) t)))
                  = map fst (shown t)"
    using editMessageText_shows[of t msg Html "convertMarkdownToHtml cfg content"] by simp_all
next
  assume long: "TELEGRAM_MESSAGE_LIMIT cfg < length (convertMarkdownToHtml cfg content) \<and>
            0 < TELEGRAM_SAFE_LIMIT cfg \<and> delivers t"
  let ?f = "convertMarkdownToHtml cfg content"
  let ?t0 = "snd (deleteMessage msg t)"
  from long have cap: "0 < TELEGRAM_SAFE_LIMIT cfg" and d: "delivers ?t0"
    by (simp_all add: delivers_delete)
  from sendChunks_delivers[OF cap d, of ?f 0]
  obtain t' units where r: "sendChunks (TELEGRAM_SAFE_LIMIT cfg) ?f 0 ?t0 = Some (True, t')"
    "shown t' = shown ?t0 @ units" "concat (map unit_text units) = ?f"
    "\<forall>u \<in> set units. 0 < length (unit_text u) \<and> length (unit_text u) \<le> TELEGRAM_SAFE_LIMIT cfg
        \<and> next_id ?t0 \<le> fst u"
    by auto
  have call: "statusCallback cfg now (SegmentEnd content segmentId) (state, t) = Some (state, t')"
    using seg content changed long r(1) by (simp add: statusCallback_def Let_def)
  have two: "2 \<le> length units" if "TELEGRAM_SAFE_LIMIT cfg \<le> TELEGRAM_MESSAGE_LIMIT cfg"
    by (rule two_units[OF r(3), of "TELEGRAM_SAFE_LIMIT cfg"]) (use r(4) long that in auto)
  show "\<exists>t' units.
               statusCallback cfg now (SegmentEnd content segmentId) (state, t) = Some (state, t') \<and>
               shown t' = shown (snd (deleteMessage msg t)) @ units \<and>
               (api_ok t (api_calls t) \<longrightarrow> msg \<notin> fst ` set (shown (snd (deleteMessage msg t)))) \<and>
               concat (map unit_text units) = convertMarkdownToHtml cfg content \<and>
               (\<forall>u \<in> set units. 0 < length (unit_text u) \<and>
                   length (unit_text u) \<le> TELEGRAM_SAFE_LIMIT cfg \<and> next_id t \<le> fst u) \<and>
               (TELEGRAM_SAFE_LIMIT cfg \<le> TELEGRAM_MESSAGE_LIMIT cfg \<longrightarrow> 2 \<le> length units)"
    using call r(2,3,4) two deleteMessage_gone[of t msg]
    by (intro exI[of _ t'] exI[of _ units]) (simp add: deleteMessage_frame)
qed

lemma segment_end_final_render_example:
  "map_option (shown \<circ> snd)
      (statusCallback example_config 0 (SegmentEnd ''abcdefgh'' 0) (liveSegment, liveChat))
     = Some [(5, Html, ''abcdefgh'')]
   \<and> map_option (shown \<circ> snd)
      (statusCallback example_config 0 (SegmentEnd ''abcdefghijklm'' 0) (liveSegment, liveChat))
     = Some [(6, Plain, ''abcd''), (7, Html, ''efgh''), (8, Html, ''ijkl''), (9, Html, ''m'')]
   \<and> concat (map unit_text [(6, Plain, ''abcd''), (7, Html, ''efgh''), (8, Html, ''ijkl''), (9, Html, ''m'')])
     = ''abcdefghijklm''"
proof -
  have h: "textMessages liveSegment 0 = Some 5"
    "lastContent liveSegment 0 \<noteq> Some (convertMarkdownToHtml example_config ''abcdefgh'')"
    "lastContent liveSegment 0 \<noteq> Some (convertMarkdownToHtml example_config ''abcdefghijklm'')"
    "delivers liveChat"
    by (simp_all add: liveSegment_def freshState_def example_config_def delivers_def liveChat_def)
  have short: "map_option (shown \<circ> snd)
      (statusCallback example_config 0 (SegmentEnd ''abcdefgh'' 0) (liveSegment, liveChat))
     = Some [(5, Html, ''abcdefgh'')]"
    using segment_end_final_render [of liveSegment 0 5 "''abcdefgh''" example_config 0 liveChat] h
    by (simp add: example_config_def editMessageText_def liveChat_def)
  have long: "map_option (shown \<circ> snd)
      (statusCallback example_config 0 (SegmentEnd ''abcdefghijklm'' 0) (liveSegment, liveChat))
     = Some [(6, Plain, ''abcd''), (7, Html, ''efgh''), (8, Html, ''ijkl''), (9, Html, ''m'')]"
    by (simp add: statusCallback_def example_config_def liveSegment_def liveChat_def freshState_def
      sendChunks.simps reply_def deleteMessage_def Let_def)
  from segment_end_final_render [of liveSegment 0 5 "''abcdefghijklm''" example_config 0 liveChat] h
  obtain t' units where
    "statusCallback example_config 0 (SegmentEnd ''abcdefghijklm'' 0) (liveSegment, liveChat)
       = Some (liveSegment, t')"
    "shown t' = shown (snd (deleteMessage 5 liveChat)) @ units"
    "concat (map unit_text units) = convertMarkdownToHtml example_config ''abcdefghijklm''"
    by (auto simp: example_config_def)
  with long have "concat (map unit_text
      [(6, Plain, ''abcd''), (7, Html, ''efgh''), (8, Html, ''ijkl''), (9, Html, ''m'')]) = ''abcdefghijklm''"
    by (simp add: deleteMessage_def liveChat_def example_config_def)
  with short long show ?thesis by simp
qed

section \<open>Properties of a turn\<close>

text \<open>The definitions that the example runs of a turn unfold.\<close>

lemmas turn_defs = sendMessageStreaming_def sessionForTurn_def resumes_def runQuery_def startQuery_def
  turnCall_def rethrown_def completeTurn_def failTurn_def processEvent_def processBlock_def callStatus_def
  statusCallback_def finally_clause_def saveSession_def getThinkingLevel_def isTmpRead_def
  isActive_def truthy_def truncated_def reply_def editMessageText_def deleteMessage_def sendChunks.simps
  stop_def kill_def startProcessing_def stopProcessing_def clearStopRequested_def consumeInterruptFlag_def
  handleStop_first_def handleStop_second_def isRunning_def isAuthorized_def Num_def falsy_def
  handleAssistantMessage_def retryLoop.simps notify_def MAX_RETRIES_def isClaudeCodeCrash_def isCancellation_def
  trim_def isSpace_def falsy_id_def sender_def check_def bucket_of_def refill_def maxTokens_def refillRate_def
  exampleWorld_def newSession_def emptyChat_def freshState_def answer_def crash_def crash_aborted_def
  example_config_def toLowerCase_def toLowerChar_def unit_text_def template_def
  isPathAllowed_def resolved_def normalize_def expandHome_def normalizeString_def normalizeStep_def
  isAbsolute_def resolve_def splitOn_def











lemma sessionForTurn_stopRequested: "stopRequested (sessionForTurn s) = stopRequested s"
  by (simp add: sessionForTurn_def)


lemma stop_pending:
  "isProcessing s \<Longrightarrow> \<not> isQueryRunning s \<Longrightarrow> stop s = (Pending, s\<lparr>stopRequested := True\<rparr>)"
  by (simp add: stop_def)

lemma sendMessageStreaming_cancelled:
  "stopRequested (session w) \<Longrightarrow>
   \<not> (resumes (session w) \<and> slice8 cfg (sessionId (session w)) = None) \<Longrightarrow>
   sendMessageStreaming cfg message state w =
     Some (Inl ''Error: Query cancelled'', state,
           w\<lparr>session := (sessionForTurn (session w))\<lparr>stopRequested := False\<rparr>\<rparr>)"
  by (auto simp: sendMessageStreaming_def sessionForTurn_stopRequested)

text \<open>
  The stop request while it lasts: when \<^verbatim>\<open>stop()\<close> is called while the session is
  processing and no query is running, it returns \<^verbatim>\<open>"pending"\<close> and sets the stop request, and a
  \<^verbatim>\<open>sendMessageStreaming\<close> call that starts while the stop request is set (and that gets
  past the log of a resumed session) aborts with the cancellation error, leaves the
  calls made to the engine as they were and clears the stop request.
\<close>

lemma stop_then_turn_cancelled:
  assumes "isProcessing (session w)" and "\<not> isQueryRunning (session w)"
    and "\<not> (resumes (session w) \<and> slice8 cfg (sessionId (session w)) = None)"
  shows "fst (stop (session w)) = Pending
       \<and> stopRequested (snd (stop (session w)))
       \<and> (\<exists>v'. sendMessageStreaming cfg message state (w\<lparr>session := snd (stop (session w))\<rparr>)
                  = Some (Inl ''Error: Query cancelled'', state, v')
              \<and> queries v' = queries w \<and> \<not> stopRequested (session v'))"
  using assms
  by (simp add: stop_pending sendMessageStreaming_cancelled sessionForTurn_def resumes_def isActive_def)


section \<open>Properties of the final render in a turn\<close>

text \<open>
  Claim C7 fails on the code: for every \<^verbatim>\<open>segment_end\<close> event whose rendered content
  differs from the last render of that segment the sink is to show the full content, by
  a final edit of the segment's display unit or by new units.  A segment gets its
  display unit from a \<^verbatim>\<open>text\<close> event, and the session sends one only for a segment of more
  than 20 characters (and when the throttle has passed); for a segment without a unit
  the sink does nothing at \<^verbatim>\<open>segment_end\<close>.  The \<^verbatim>\<open>segment_end\<close> of the answer \<^verbatim>\<open>Done.\<close> leaves the
  streaming state and the chat as they are, and in the whole turn with that answer the
  transport is not called once: the chat shows nothing of the response that the call
  returns.
\<close>

theorem segment_end_without_unit:
  "statusCallback example_config 1000020 (SegmentEnd ''Done.'' 0) (freshState, emptyChat)
     = Some (freshState, emptyChat)
   \<and> map_option (\<lambda>r. (fst r, shown (wchat (snd (snd r))), api_calls (wchat (snd (snd r)))))
        (sendMessageStreaming example_config ''hi'' freshState (exampleWorld (\<lambda>n. short_answer)))
       = Some (Inr ''Done.'', [], 0)"
  by (simp add: turn_defs short_answer_def Let_def)

section \<open>Properties of the crash retry\<close>







end
